theory Spec2Isabelle
  imports Main "HOL-Library.AList"
begin

section \<open>Python values\<close>

text \<open>
  The backend works on decoded JSON: \<^verbatim>\<open>None\<close>, booleans, integers, strings, lists and
  dictionaries. A dictionary is an association list, in insertion order.
\<close>

datatype json =
    JNull
  | JBool bool
  | JNum int
  | JStr string
  | JArr "json list"
  | JObj "(string \<times> json) list"

type_synonym dict = "(string \<times> json) list"

text \<open>
  Exceptions are values. \<open>OutOfFuel\<close> is not a Python exception: it marks a pagination
  loop that has not ended within the number of steps that the model was given.
\<close>

datatype error =
    HTTPError nat
  | KeyError string
  | TypeError
  | ValueError
  | AttributeError
  | ConfigurationError string
  | OtherError string
  | OutOfFuel

text \<open>\<^verbatim>\<open>if x:\<close> and \<^verbatim>\<open>if not x:\<close>.\<close>

fun truthy :: "json \<Rightarrow> bool" where
  "truthy JNull = False"
| "truthy (JBool b) = b"
| "truthy (JNum n) = (n \<noteq> 0)"
| "truthy (JStr s) = (s \<noteq> [])"
| "truthy (JArr xs) = (xs \<noteq> [])"
| "truthy (JObj kvs) = (kvs \<noteq> [])"

text \<open>\<^verbatim>\<open>obj[key]\<close> for a string key: only a dictionary has string keys.\<close>

fun subscript :: "json \<Rightarrow> string \<Rightarrow> error + json" where
  "subscript (JObj kvs) k = (case map_of kvs k of None \<Rightarrow> Inl (KeyError k) | Some v \<Rightarrow> Inr v)"
| "subscript _ k = Inl TypeError"

text \<open>\<^verbatim>\<open>obj.get(key, None)\<close>: a method of dictionaries only.\<close>

fun py_get :: "json \<Rightarrow> string \<Rightarrow> error + json" where
  "py_get (JObj kvs) k = (case map_of kvs k of None \<Rightarrow> Inr JNull | Some v \<Rightarrow> Inr v)"
| "py_get _ k = Inl AttributeError"

text \<open>\<^verbatim>\<open>obj[key] = v\<close>: the key keeps its place when present, and is appended otherwise.\<close>

fun setitem :: "json \<Rightarrow> string \<Rightarrow> json \<Rightarrow> error + json" where
  "setitem (JObj kvs) k v = Inr (JObj (AList.update k v kvs))"
| "setitem _ k v = Inl TypeError"

text \<open>\<^verbatim>\<open>for x in obj:\<close> gives the elements of a list, the keys of a dictionary, the
  characters of a string.\<close>

fun py_iter :: "json \<Rightarrow> error + json list" where
  "py_iter (JArr xs) = Inr xs"
| "py_iter (JObj kvs) = Inr (map (\<lambda>kv. JStr (fst kv)) kvs)"
| "py_iter (JStr s) = Inr (map (\<lambda>c. JStr [c]) s)"
| "py_iter _ = Inl TypeError"

text \<open>A dictionary key must be hashable, and \<^verbatim>\<open>True == 1\<close>, \<^verbatim>\<open>False == 0\<close> as keys.\<close>

fun py_key :: "json \<Rightarrow> error + json" where
  "py_key (JArr xs) = Inl TypeError"
| "py_key (JObj kvs) = Inl TypeError"
| "py_key (JBool b) = Inr (JNum (if b then 1 else 0))"
| "py_key j = Inr j"

section \<open>Categories\<close>

definition CATEGORY_ISSUE :: string where
  "CATEGORY_ISSUE = ''issue''"

definition CATEGORY_PULL_REQUEST :: string where
  "CATEGORY_PULL_REQUEST = ''pull_request''"

definition CATEGORY_REPO :: string where
  "CATEGORY_REPO = ''repository''"

definition CATEGORIES :: "string list" where
  "CATEGORIES = [CATEGORY_ISSUE, CATEGORY_PULL_REQUEST, CATEGORY_REPO]"

text \<open>\<^verbatim>\<open>"base" in item\<close>, for an item that is a dictionary.\<close>

definition has_key :: "string \<Rightarrow> dict \<Rightarrow> bool" where
  "has_key k item = (map_of item k \<noteq> None)"

definition metadata_category :: "dict \<Rightarrow> string" where
  "metadata_category item =
     (if has_key ''base'' item then CATEGORY_PULL_REQUEST
      else if has_key ''forks_count'' item then CATEGORY_REPO
      else CATEGORY_ISSUE)"

section \<open>Category classification\<close>

text \<open>
  Claim C9. The category of an item is a function of its shape alone: an item with a
  \<open>base\<close> field is a pull request; without it, an item with a \<open>forks_count\<close> field is
  a repository snapshot; an item with neither is an issue. The three category names are
  pairwise different and every item gets one of them, so the three shapes are mutually
  exclusive and exhaustive.
\<close>

theorem metadata_category_by_shape:
  "(has_key ''base'' item \<longrightarrow> metadata_category item = CATEGORY_PULL_REQUEST) \<and>
   (\<not> has_key ''base'' item \<and> has_key ''forks_count'' item \<longrightarrow>
      metadata_category item = CATEGORY_REPO) \<and>
   (\<not> has_key ''base'' item \<and> \<not> has_key ''forks_count'' item \<longrightarrow>
      metadata_category item = CATEGORY_ISSUE) \<and>
   distinct CATEGORIES \<and>
   metadata_category item \<in> set CATEGORIES"
  by (simp add: metadata_category_def CATEGORIES_def CATEGORY_ISSUE_def
      CATEGORY_PULL_REQUEST_def CATEGORY_REPO_def)

theorem metadata_category_by_shape_witness:
  "metadata_category [(''id'', JNum 7), (''base'', JObj [])] = CATEGORY_PULL_REQUEST \<and>
   metadata_category [(''id'', JNum 1), (''forks_count'', JNum 3)] = CATEGORY_REPO \<and>
   metadata_category [(''id'', JNum 2), (''updated_at'', JStr ''2021-01-01'')] = CATEGORY_ISSUE"
  using metadata_category_by_shape [of "[(''id'', JNum 7), (''base'', JObj [])]"]
    metadata_category_by_shape [of "[(''id'', JNum 1), (''forks_count'', JNum 3)]"]
    metadata_category_by_shape [of "[(''id'', JNum 2), (''updated_at'', JStr ''2021-01-01'')]"]
  by (simp add: has_key_def)

section \<open>The client and its collaborators\<close>

text \<open>
  A request names the resource it asks for. The URLs that the client builds with
  \<^verbatim>\<open>urijoin\<close> from its base URL, owner and repository are represented by the resource
  they lead to; \<open>Link\<close> is a URL taken from a response's pagination links. The query
  parameters travel with the request.
\<close>

datatype url =
    Issues
  | IssueComments json
  | Pulls
  | PullComments json
  | PullCommits json
  | PullOperateLogs json
  | Repo
  | RepoReleases
  | User json
  | UserOrgs json
  | Link string

datatype param = PStr string | PInt int | PDate int

type_synonym payload = "(string \<times> param) list"

type_synonym request = "url \<times> payload"

text \<open>
  What the client reads of a response: its body, the \<^verbatim>\<open>total_page\<close> header and the URL
  of the \<^verbatim>\<open>next\<close> pagination link, when the response has one.
\<close>

record response =
  rtext :: string
  total_page :: "string option"
  next_url :: "string option"

text \<open>
  The collaborators that are not part of the repository are parameters: the transport
  (\<^verbatim>\<open>HttpClient.fetch\<close>, which returns a response or raises), \<^verbatim>\<open>json.loads\<close> and
  \<^verbatim>\<open>str_to_datetime\<close> (a time is its UNIX timestamp) and the clock. The settings of
  the backend and its client complete the record; \<^verbatim>\<open>Gitee.fetch\<close> sets
  \<open>exclude_user_data\<close> before anything is fetched.
\<close>

record backend =
  transport :: "request \<Rightarrow> error + response"
  loads :: "string \<Rightarrow> error + json"
  str_to_datetime :: "json \<Rightarrow> error + int"
  datetime_utcnow :: int
  access_token :: "string option"
  max_items :: int
  exclude_user_data :: bool

datatype log_arg = Value json | Address url

datatype log_event = LogWarning string log_arg | LogError string log_arg

text \<open>
  The state that a run changes: the requests sent so far, the warnings and errors logged,
  and the two caches of \<^verbatim>\<open>GiteeClient\<close> (login to response body).
\<close>

record world =
  requests :: "request list"
  events :: "log_event list"
  users :: "(json \<times> string) list"
  users_orgs :: "(json \<times> string) list"

type_synonym 'a action = "world \<Rightarrow> (error + 'a) \<times> world"

definition ret :: "'a \<Rightarrow> 'a action" where
  "ret x w = (Inr x, w)"

definition raise :: "error \<Rightarrow> 'a action" where
  "raise e w = (Inl e, w)"

definition lift :: "error + 'a \<Rightarrow> 'a action" where
  "lift r w = (r, w)"

definition bindM :: "'a action \<Rightarrow> ('a \<Rightarrow> 'b action) \<Rightarrow> 'b action" where
  "bindM f g w = (case f w of (Inl e, w') \<Rightarrow> (Inl e, w') | (Inr x, w') \<Rightarrow> g x w')"

definition log_event :: "log_event \<Rightarrow> unit action" where
  "log_event ev w = (Inr (), w\<lparr>events := events w @ [ev]\<rparr>)"

text \<open>\<^verbatim>\<open>GiteeClient.fetch\<close>: the access token, when there is one, is added to the query
  parameters, and the transport is called.\<close>

definition with_token :: "backend \<Rightarrow> payload \<Rightarrow> payload" where
  "with_token b payload =
     (case access_token b of
        None \<Rightarrow> payload
      | Some t \<Rightarrow> if t = [] then payload else AList.update ''access_token'' (PStr t) payload)"

definition client_fetch :: "backend \<Rightarrow> url \<Rightarrow> payload \<Rightarrow> response action" where
  "client_fetch b u payload w =
     (transport b (u, with_token b payload),
      w\<lparr>requests := requests w @ [(u, with_token b payload)]\<rparr>)"

section \<open>Pagination\<close>

text \<open>
  \<^verbatim>\<open>GiteeClient.fetch_items\<close> is a generator. \<open>Start\<close> is the generator before its
  first step; \<open>Paused\<close> is the generator suspended at its \<^verbatim>\<open>yield\<close>, holding the last
  response, the value of \<^verbatim>\<open>total_page\<close> and the query parameters. The page counter
  is only printed and is left out.
\<close>

datatype gen = Start url payload | Paused response "int option" payload

definition digit_of :: "char \<Rightarrow> int option" where
  "digit_of c =
     map_of [(CHR ''0'', 0), (CHR ''1'', 1), (CHR ''2'', 2), (CHR ''3'', 3), (CHR ''4'', 4),
             (CHR ''5'', 5), (CHR ''6'', 6), (CHR ''7'', 7), (CHR ''8'', 8), (CHR ''9'', 9)] c"

text \<open>
  \<^verbatim>\<open>if total_page: total_page = int(total_page[0])\<close>. A header that is absent or empty
  leaves a value that is not a number, written \<open>None\<close>.
\<close>

definition read_total_page :: "string option \<Rightarrow> error + int option" where
  "read_total_page h =
     (case h of
        None \<Rightarrow> Inr None
      | Some [] \<Rightarrow> Inr None
      | Some (c # cs) \<Rightarrow> (case digit_of c of None \<Rightarrow> Inl ValueError | Some d \<Rightarrow> Inr (Some d)))"

text \<open>
  One step of the generator: \<open>Some (items, g)\<close> is a yielded page with the suspended
  generator, \<open>None\<close> is the end of the iteration. After a page that is not the first, the
  debug message formats \<^verbatim>\<open>total_page\<close> with \<^verbatim>\<open>%i\<close>, which raises when it is not a
  number.
\<close>

definition page_of :: "response \<Rightarrow> int option \<Rightarrow> payload \<Rightarrow> (string \<times> gen) option" where
  "page_of r tp payload = (if rtext r = [] then None else Some (rtext r, Paused r tp payload))"

fun gen_next :: "backend \<Rightarrow> gen \<Rightarrow> (string \<times> gen) option action" where
  "gen_next b (Start u payload) =
     bindM (client_fetch b u payload) (\<lambda>r.
     bindM (lift (read_total_page (total_page r))) (\<lambda>tp.
     ret (page_of r tp payload)))"
| "gen_next b (Paused r tp payload) =
     (case next_url r of
        None \<Rightarrow> ret None
      | Some u \<Rightarrow>
          bindM (client_fetch b (Link u) payload) (\<lambda>r'.
          (case tp of
             None \<Rightarrow> raise TypeError
           | Some n \<Rightarrow> ret (page_of r' tp payload))))"

text \<open>
  A \<^verbatim>\<open>for\<close> loop over the generator. The body handles one page: it gives the items it
  produced and says whether the loop goes on, the enclosing function returns, or an
  exception leaves it. The loop gives all items produced and the exception that ended it,
  if any. \<open>fuel\<close> bounds the number of steps of the generator.
\<close>

datatype flow = Continue | Return | Raise error

type_synonym 'a body = "string \<Rightarrow> world \<Rightarrow> ('a list \<times> flow) \<times> world"

fun drive :: "nat \<Rightarrow> backend \<Rightarrow> 'a body \<Rightarrow> gen \<Rightarrow> world \<Rightarrow> ('a list \<times> error option) \<times> world" where
  "drive 0 b body g w = (([], Some OutOfFuel), w)"
| "drive (Suc n) b body g w =
     (case gen_next b g w of
        (Inl e, w1) \<Rightarrow> (([], Some e), w1)
      | (Inr None, w1) \<Rightarrow> (([], None), w1)
      | (Inr (Some (raw, g')), w1) \<Rightarrow>
          (case body raw w1 of
             ((outs, Continue), w2) \<Rightarrow>
               (case drive n b body g' w2 of
                  ((outs', r), w3) \<Rightarrow> ((outs @ outs', r), w3))
           | ((outs, Return), w2) \<Rightarrow> ((outs, None), w2)
           | ((outs, Raise e), w2) \<Rightarrow> ((outs, Some e), w2)))"

text \<open>All pages of a listing, as a consumer that takes every page gets them.\<close>

definition fetch_items_pages ::
  "nat \<Rightarrow> backend \<Rightarrow> url \<Rightarrow> payload \<Rightarrow> world \<Rightarrow> (string list \<times> error option) \<times> world" where
  "fetch_items_pages fuel b u payload w =
     drive fuel b (\<lambda>raw w'. (([raw], Continue), w')) (Start u payload) w"

text \<open>
  A chain of responses: each but the last has a \<^verbatim>\<open>next\<close> link that the transport
  answers with the following one, and the last has none.
\<close>

fun linked :: "backend \<Rightarrow> payload \<Rightarrow> response list \<Rightarrow> bool" where
  "linked b p [] = False"
| "linked b p [r] = (next_url r = None)"
| "linked b p (r # r' # rs) =
     ((case next_url r of None \<Rightarrow> False | Some u \<Rightarrow> transport b (Link u, p) = Inr r')
      \<and> linked b p (r' # rs))"

definition world0 :: world where
  "world0 = \<lparr>requests = [], events = [], users = [], users_orgs = []\<rparr>"

subsection \<open>Fixtures: three pages\<close>

text \<open>
  A listing of three pages that all carry the given \<^verbatim>\<open>total_page\<close> header, and one whose
  second page has an empty body. \<open>client_of\<close> is a client over a transport, without a
  token; its decoders are not used by the pagination.
\<close>

definition page :: "string \<Rightarrow> string option \<Rightarrow> string option \<Rightarrow> response" where
  "page t tp nx = \<lparr>rtext = t, total_page = tp, next_url = nx\<rparr>"

fun three_pages :: "string option \<Rightarrow> request \<Rightarrow> error + response" where
  "three_pages tp (Issues, p) = Inr (page ''[1]'' tp (Some ''page2''))"
| "three_pages tp (Link u, p) =
     (if u = ''page2'' then Inr (page ''[2]'' tp (Some ''page3''))
      else if u = ''page3'' then Inr (page ''[3]'' tp None)
      else Inl (HTTPError 404))"
| "three_pages tp (u, p) = Inl (HTTPError 404)"

fun gap_pages :: "request \<Rightarrow> error + response" where
  "gap_pages (Issues, p) = Inr (page ''[1]'' (Some ''3'') (Some ''page2''))"
| "gap_pages (Link u, p) =
     (if u = ''page2'' then Inr (page [] (Some ''3'') (Some ''page3''))
      else if u = ''page3'' then Inr (page ''[3]'' (Some ''3'') None)
      else Inl (HTTPError 404))"
| "gap_pages (u, p) = Inl (HTTPError 404)"

definition client_of :: "(request \<Rightarrow> error + response) \<Rightarrow> backend" where
  "client_of t = \<lparr>transport = t, loads = (\<lambda>s. Inl ValueError), str_to_datetime = (\<lambda>j. Inl ValueError),
     datetime_utcnow = 0, access_token = None, max_items = 100, exclude_user_data = False\<rparr>"

subsection \<open>What the paginated source yields\<close>

text \<open>The requests that follow the links of a chain of responses.\<close>

definition link_requests :: "backend \<Rightarrow> payload \<Rightarrow> response list \<Rightarrow> request list" where
  "link_requests b p0 rs = map (\<lambda>x. (Link (the (next_url x)), with_token b p0)) (butlast rs)"

text \<open>A loop whose body takes every page of a chain and changes nothing gets the
  items of all its pages.\<close>

lemma drive_chain:
  "linked b (with_token b p0) (r # rs) \<Longrightarrow> \<forall>x\<in>set rs. rtext x \<noteq> [] \<Longrightarrow> length rs < fuel \<Longrightarrow>
   \<forall>x\<in>set rs. \<forall>w'. body (rtext x) w' = ((f (rtext x), Continue), w') \<Longrightarrow>
   drive fuel b body (Paused r (Some k) p0) w =
     ((concat (map (\<lambda>x. f (rtext x)) rs), None),
      w\<lparr>requests := requests w @ link_requests b p0 (r # rs)\<rparr>)"
proof (induction rs arbitrary: r fuel w)
  case Nil
  then obtain n where "fuel = Suc n" by (cases fuel) auto
  with Nil show ?case by (simp add: ret_def link_requests_def)
next
  case (Cons r' rs)
  then obtain n where f: "fuel = Suc n" by (cases fuel) auto
  from Cons.prems obtain u where u: "next_url r = Some u" "transport b (Link u, with_token b p0) = Inr r'"
    and l: "linked b (with_token b p0) (r' # rs)"
    by (auto split: option.splits)
  have ne: "rtext r' \<noteq> []" and rest: "\<forall>x\<in>set rs. rtext x \<noteq> []" using Cons.prems by auto
  have len: "length rs < n" using Cons.prems f by simp
  have pure: "\<And>w'. body (rtext r') w' = ((f (rtext r'), Continue), w')"
    and pures: "\<forall>x\<in>set rs. \<forall>w'. body (rtext x) w' = ((f (rtext x), Continue), w')"
    using Cons.prems by auto
  show ?case
    using Cons.IH [OF l rest len pures] u ne f pure
    by (simp add: bindM_def client_fetch_def ret_def page_of_def link_requests_def)
qed

lemma drive_start_chain:
  assumes "transport b (u, with_token b p0) = Inr r"
    and "linked b (with_token b p0) (r # rs)"
    and "\<forall>x\<in>set (r # rs). rtext x \<noteq> []"
    and "total_page r = Some (c # cs)" and "digit_of c = Some k"
    and "length (r # rs) < fuel"
    and "\<forall>x\<in>set (r # rs). \<forall>w'. body (rtext x) w' = ((f (rtext x), Continue), w')"
  shows "drive fuel b body (Start u p0) w =
     ((concat (map (\<lambda>x. f (rtext x)) (r # rs)), None),
      w\<lparr>requests := requests w @ (u, with_token b p0) # link_requests b p0 (r # rs)\<rparr>)"
proof -
  from assms obtain n where f: "fuel = Suc n" by (cases fuel) auto
  let ?w1 = "w\<lparr>requests := requests w @ [(u, with_token b p0)]\<rparr>"
  have first: "gen_next b (Start u p0) w = (Inr (Some (rtext r, Paused r (Some k) p0)), ?w1)"
    using assms
    by (simp add: bindM_def client_fetch_def lift_def read_total_page_def ret_def page_of_def)
  have rest: "drive n b body (Paused r (Some k) p0) ?w1 =
     ((concat (map (\<lambda>x. f (rtext x)) rs), None),
      ?w1\<lparr>requests := requests ?w1 @ link_requests b p0 (r # rs)\<rparr>)"
    using assms f by (intro drive_chain) auto
  have pure: "body (rtext r) ?w1 = ((f (rtext r), Continue), ?w1)"
    using assms by simp
  show ?thesis
    unfolding f
    by (simp add: first rest pure del: gen_next.simps)
qed

text \<open>
  Claim C3, as the code has it. The source stops at a response without a \<^verbatim>\<open>next\<close> link
  and also at a response with an empty body. For a chain of responses with non-empty
  bodies, where each but the last carries a \<^verbatim>\<open>next\<close> link and the last does not, and
  whose first response has a \<^verbatim>\<open>total_page\<close> header that starts with a decimal digit,
  the source yields exactly the bodies of the chain, one per response, and sends one
  request per response, whatever number the header states.
\<close>

theorem fetch_items_yields_chain:
  assumes "transport b (u, with_token b p0) = Inr r"
    and "linked b (with_token b p0) (r # rs)"
    and "\<forall>x\<in>set (r # rs). rtext x \<noteq> []"
    and "total_page r = Some (c # cs)" and "digit_of c = Some k"
    and "length (r # rs) < fuel"
  shows "fetch_items_pages fuel b u p0 w =
     ((map rtext (r # rs), None),
      w\<lparr>requests := requests w @ (u, with_token b p0) # link_requests b p0 (r # rs)\<rparr>)"
  unfolding fetch_items_pages_def
  using drive_start_chain [OF assms, of "\<lambda>raw w'. (([raw], Continue), w')" "\<lambda>raw. [raw]" w]
  by simp

theorem fetch_items_yields_chain_witness:
  "fst (fetch_items_pages 4 (client_of (three_pages (Some ''7''))) Issues [] world0) = ([''[1]'', ''[2]'', ''[3]''], None)
  \<and> length (requests (snd (fetch_items_pages 4 (client_of (three_pages (Some ''7''))) Issues [] world0))) = 3"
  using fetch_items_yields_chain [of "client_of (three_pages (Some ''7''))" Issues "[]"
      "page ''[1]'' (Some ''7'') (Some ''page2'')"
      "[page ''[2]'' (Some ''7'') (Some ''page3''), page ''[3]'' (Some ''7'') None]"
      "CHR ''7''" "[]" 7 4 world0]
  by (simp add: client_of_def with_token_def page_def digit_of_def world0_def link_requests_def)

text \<open>
  The claim as stated fails: pages 1 and 2 carry a \<^verbatim>\<open>next\<close> link and page 3 does not,
  but the body of page 2 is empty, so the source yields one payload and not three.
\<close>

theorem fetch_items_stops_at_empty_body:
  "transport (client_of gap_pages) (Issues, []) = Inr (page ''[1]'' (Some ''3'') (Some ''page2'')) \<and>
   linked (client_of gap_pages) []
     [page ''[1]'' (Some ''3'') (Some ''page2''), page [] (Some ''3'') (Some ''page3''),
      page ''[3]'' (Some ''3'') None] \<and>
   fst (fetch_items_pages 4 (client_of gap_pages) Issues [] world0) = ([''[1]''], None) \<and>
   length (fst (fst (fetch_items_pages 4 (client_of gap_pages) Issues [] world0))) \<noteq> 3"
  by (simp add: fetch_items_pages_def client_of_def page_def eval_nat_numeral bindM_def
      client_fetch_def lift_def read_total_page_def digit_of_def ret_def page_of_def with_token_def
      world0_def)

text \<open>
  Without a \<^verbatim>\<open>total_page\<close> header the second page is fetched and then the debug
  message raises, so the same three pages give one payload and a \<^verbatim>\<open>TypeError\<close>.
\<close>

lemma fetch_items_absent_total_page:
  "fst (fetch_items_pages 4 (client_of (three_pages None)) Issues [] world0) = ([''[1]''], Some TypeError)"
  by (simp add: fetch_items_pages_def client_of_def page_def eval_nat_numeral bindM_def
      client_fetch_def lift_def read_total_page_def digit_of_def ret_def page_of_def with_token_def
      world0_def raise_def)

section \<open>Users and organizations\<close>

text \<open>\<^verbatim>\<open>GiteeClient.user\<close>: the body of the user's record, from the cache when the login
  is in it, fetched and stored otherwise.\<close>

definition client_user :: "backend \<Rightarrow> json \<Rightarrow> string action" where
  "client_user b login =
     bindM (lift (py_key login)) (\<lambda>k w.
       case map_of (users w) k of
         Some cached \<Rightarrow> (Inr cached, w)
       | None \<Rightarrow>
           bindM (client_fetch b (User login) [])
             (\<lambda>r w'. (Inr (rtext r), w'\<lparr>users := AList.update k (rtext r) (users w')\<rparr>)) w)"

text \<open>\<^verbatim>\<open>GiteeClient.user_orgs\<close>: as above for the organizations; a not-found failure of
  the request is logged and stands for an empty list.\<close>

definition orgs_error :: string where
  "orgs_error = ''Can't get gitee login orgs with %s''"

definition fetch_orgs :: "backend \<Rightarrow> json \<Rightarrow> string action" where
  "fetch_orgs b login w =
     (case client_fetch b (UserOrgs login) [] w of
        (Inr r, w1) \<Rightarrow> (Inr (rtext r), w1)
      | (Inl (HTTPError s), w1) \<Rightarrow>
          if s = 404 then bindM (log_event (LogError orgs_error (Address (UserOrgs login)))) (\<lambda>u. ret ''[]'') w1
          else (Inl (HTTPError s), w1)
      | (Inl e, w1) \<Rightarrow> (Inl e, w1))"

definition client_user_orgs :: "backend \<Rightarrow> json \<Rightarrow> string action" where
  "client_user_orgs b login =
     bindM (lift (py_key login)) (\<lambda>k w.
       case map_of (users_orgs w) k of
         Some cached \<Rightarrow> (Inr cached, w)
       | None \<Rightarrow>
           bindM (fetch_orgs b login)
             (\<lambda>orgs w'. (Inr orgs, w'\<lparr>users_orgs := AList.update k orgs (users_orgs w')\<rparr>)) w)"

text \<open>\<^verbatim>\<open>Gitee.__get_user\<close>.\<close>

definition get_user :: "backend \<Rightarrow> json \<Rightarrow> json action" where
  "get_user b login =
     (if \<not> truthy login \<or> exclude_user_data b then ret JNull
      else
        bindM (client_user b login) (\<lambda>user_raw.
        bindM (lift (loads b user_raw)) (\<lambda>user.
        bindM (client_user_orgs b login) (\<lambda>user_orgs_raw.
        bindM (lift (loads b user_orgs_raw)) (\<lambda>orgs.
        lift (setitem user ''organizations'' orgs))))))"

text \<open>\<^verbatim>\<open>Gitee.__get_users\<close> and \<^verbatim>\<open>Gitee.__get_issue_collaborators\<close> resolve the login
  of each entry, in order; \<^verbatim>\<open>Gitee.__get_issue_assignee\<close> resolves one.\<close>

fun get_users_loop :: "backend \<Rightarrow> json list \<Rightarrow> json list action" where
  "get_users_loop b [] w = ret [] w"
| "get_users_loop b (item # items) w =
     bindM (lift (subscript item ''login'')) (\<lambda>login.
     bindM (get_user b login) (\<lambda>user.
     bindM (\<lambda>w'. get_users_loop b items w') (\<lambda>rest.
     ret (user # rest)))) w"

definition get_users :: "backend \<Rightarrow> json \<Rightarrow> json action" where
  "get_users b items =
     bindM (lift (py_iter items)) (\<lambda>xs.
     bindM (get_users_loop b xs) (\<lambda>us. ret (JArr us)))"

definition get_issue_collaborators :: "backend \<Rightarrow> json \<Rightarrow> json action" where
  "get_issue_collaborators b raw_collaborators =
     bindM (lift (py_iter raw_collaborators)) (\<lambda>xs.
     bindM (get_users_loop b xs) (\<lambda>us. ret (JArr us)))"

definition get_issue_assignee :: "backend \<Rightarrow> json \<Rightarrow> json action" where
  "get_issue_assignee b raw_assignee =
     bindM (lift (subscript raw_assignee ''login'')) (get_user b)"

section \<open>Sub-resources of an issue or a pull request\<close>

text \<open>
  The inner loop over the entries of one page. The step gives \<open>Some\<close> item, or \<open>None\<close>
  when the enclosing function returns at this entry.
\<close>

fun each :: "(json \<Rightarrow> 'a option action) \<Rightarrow> json list \<Rightarrow> world \<Rightarrow> ('a list \<times> flow) \<times> world" where
  "each f [] w = (([], Continue), w)"
| "each f (x # xs) w =
     (case f x w of
        (Inl e, w1) \<Rightarrow> (([], Raise e), w1)
      | (Inr None, w1) \<Rightarrow> (([], Return), w1)
      | (Inr (Some y), w1) \<Rightarrow>
          (case each f xs w1 of ((ys, fl), w2) \<Rightarrow> ((y # ys, fl), w2)))"

text \<open>\<^verbatim>\<open>for x in json.loads(raw): ...\<close>\<close>

definition page_body :: "backend \<Rightarrow> (json \<Rightarrow> 'a option action) \<Rightarrow> 'a body" where
  "page_body b f raw w =
     (case loads b raw of
        Inl e \<Rightarrow> (([], Raise e), w)
      | Inr decoded \<Rightarrow>
          (case py_iter decoded of
             Inl e \<Rightarrow> (([], Raise e), w)
           | Inr xs \<Rightarrow> each f xs w))"

definition PER_PAGE :: int where
  "PER_PAGE = 100"

definition client_issue_comments :: "json \<Rightarrow> gen" where
  "client_issue_comments issue_number =
     Start (IssueComments issue_number) [(''per_page'', PInt PER_PAGE)]"

definition client_pull_action_logs :: "json \<Rightarrow> gen" where
  "client_pull_action_logs pr_number = Start (PullOperateLogs pr_number) []"

definition client_pull_commits :: "json \<Rightarrow> gen" where
  "client_pull_commits pr_number = Start (PullCommits pr_number) [(''per_page'', PInt PER_PAGE)]"

definition client_pull_review_comments :: "json \<Rightarrow> gen" where
  "client_pull_review_comments pr_number =
     Start (PullComments pr_number) [(''per_page'', PInt PER_PAGE), (''direction'', PStr ''asc'')]"

text \<open>A function that collects the items of all pages and lets every exception pass.\<close>

definition collect :: "('a list \<times> error option) \<times> world \<Rightarrow> (error + 'a list) \<times> world" where
  "collect res = (case res of ((xs, None), w) \<Rightarrow> (Inr xs, w) | ((xs, Some e), w) \<Rightarrow> (Inl e, w))"

text \<open>A function that collects the items of all pages inside
  \<^verbatim>\<open>try: ... except HTTPError\<close>, whose handler logs a not-found failure and raises every
  other one again; after the handler the function returns what it has collected.\<close>

definition collect_tolerant ::
  "log_event \<Rightarrow> ('a list \<times> error option) \<times> world \<Rightarrow> (error + 'a list) \<times> world" where
  "collect_tolerant ev res =
     (case res of
        ((xs, None), w) \<Rightarrow> (Inr xs, w)
      | ((xs, Some (HTTPError s)), w) \<Rightarrow>
          if s = 404 then bindM (log_event ev) (\<lambda>u. ret xs) w else (Inl (HTTPError s), w)
      | ((xs, Some e), w) \<Rightarrow> (Inl e, w))"

text \<open>\<^verbatim>\<open>Gitee.__get_issue_comments\<close>.\<close>

definition issue_comment :: "backend \<Rightarrow> json \<Rightarrow> json option action" where
  "issue_comment b comment =
     bindM (lift (py_get comment ''id'')) (\<lambda>comment_id.
     bindM (lift (subscript comment ''user'')) (\<lambda>user.
     bindM (lift (subscript user ''login'')) (\<lambda>login.
     bindM (get_user b login) (\<lambda>user_data.
     bindM (lift (setitem comment ''user_data'' user_data)) (\<lambda>comment'.
     ret (Some comment'))))))"

definition get_issue_comments :: "nat \<Rightarrow> backend \<Rightarrow> json \<Rightarrow> json action" where
  "get_issue_comments fuel b issue_number w =
     (case collect (drive fuel b (page_body b (issue_comment b))
                      (client_issue_comments issue_number) w) of
        (Inl e, w') \<Rightarrow> (Inl e, w')
      | (Inr comments, w') \<Rightarrow> (Inr (JArr comments), w'))"

text \<open>\<^verbatim>\<open>Gitee.__get_pull_merged_by\<close>: in each page the scan stops at the first entry
  whose action type is \<^verbatim>\<open>merged_pr\<close>, and the login found in a later page replaces the
  one found before.\<close>

fun scan_action_logs :: "json list \<Rightarrow> error + json list" where
  "scan_action_logs [] = Inr []"
| "scan_action_logs (action_log # action_logs) =
     (case subscript action_log ''action_type'' of
        Inl e \<Rightarrow> Inl e
      | Inr t \<Rightarrow>
          if t = JStr ''merged_pr'' then
            (case subscript action_log ''user'' of
               Inl e \<Rightarrow> Inl e
             | Inr user \<Rightarrow>
                 (case subscript user ''login'' of Inl e \<Rightarrow> Inl e | Inr login \<Rightarrow> Inr [login]))
          else scan_action_logs action_logs)"

definition action_logs_body :: "backend \<Rightarrow> json body" where
  "action_logs_body b raw w =
     (case loads b raw of
        Inl e \<Rightarrow> (([], Raise e), w)
      | Inr decoded \<Rightarrow>
          (case py_iter decoded of
             Inl e \<Rightarrow> (([], Raise e), w)
           | Inr action_logs \<Rightarrow>
               (case scan_action_logs action_logs of
                  Inl e \<Rightarrow> (([], Raise e), w)
                | Inr found \<Rightarrow> ((found, Continue), w))))"

definition get_pull_merged_by :: "nat \<Rightarrow> backend \<Rightarrow> json \<Rightarrow> json action" where
  "get_pull_merged_by fuel b pr_number w =
     (case collect (drive fuel b (action_logs_body b) (client_pull_action_logs pr_number) w) of
        (Inl e, w') \<Rightarrow> (Inl e, w')
      | (Inr found, w') \<Rightarrow> (Inr (if found = [] then JNull else last found), w'))"

text \<open>\<^verbatim>\<open>Gitee.__get_pull_commits\<close>.\<close>

definition commits_error :: string where
  "commits_error = ''Can't get gitee pull request commits with PR number %s''"

definition pull_commit :: "json \<Rightarrow> json option action" where
  "pull_commit commit = bindM (lift (subscript commit ''sha'')) (\<lambda>commit_hash. ret (Some commit_hash))"

definition get_pull_commits :: "nat \<Rightarrow> backend \<Rightarrow> json \<Rightarrow> json action" where
  "get_pull_commits fuel b pr_number w =
     (case collect_tolerant (LogError commits_error (Value pr_number))
             (drive fuel b (page_body b pull_commit) (client_pull_commits pr_number) w) of
        (Inl e, w') \<Rightarrow> (Inl e, w')
      | (Inr hashes, w') \<Rightarrow> (Inr (JArr hashes), w'))"

text \<open>\<^verbatim>\<open>Gitee.__get_pull_review_comments\<close>.\<close>

definition comments_error :: string where
  "comments_error = ''Can't get gitee pull request comments with PR number %s''"

definition missing_user :: string where
  "missing_user = ''Missing user info for %s''"

definition review_comment :: "backend \<Rightarrow> json \<Rightarrow> json option action" where
  "review_comment b comment =
     bindM (lift (py_get comment ''id'')) (\<lambda>comment_id.
     bindM (lift (py_get comment ''user'')) (\<lambda>user.
     bindM (if \<not> truthy user then
              bindM (lift (subscript comment ''url'')) (\<lambda>url.
              bindM (log_event (LogWarning missing_user (Value url))) (\<lambda>u.
              lift (setitem comment ''user_data'' JNull)))
            else
              bindM (lift (subscript user ''login'')) (\<lambda>login.
              bindM (get_user b login) (\<lambda>user_data.
              lift (setitem comment ''user_data'' user_data))))
       (\<lambda>comment'. ret (Some comment'))))"

definition get_pull_review_comments :: "nat \<Rightarrow> backend \<Rightarrow> json \<Rightarrow> json action" where
  "get_pull_review_comments fuel b pr_number w =
     (case collect_tolerant (LogError comments_error (Value pr_number))
             (drive fuel b (page_body b (review_comment b))
                (client_pull_review_comments pr_number) w) of
        (Inl e, w') \<Rightarrow> (Inl e, w')
      | (Inr comments, w') \<Rightarrow> (Inr (JArr comments), w'))"

section \<open>The category drivers\<close>

definition TARGET_ISSUE_FIELDS :: "string list" where
  "TARGET_ISSUE_FIELDS = [''user'', ''assignee'', ''collaborators'', ''comments'']"

definition TARGET_PULL_FIELDS :: "string list" where
  "TARGET_PULL_FIELDS = [''user'', ''assignees'', ''number'', ''assignees'', ''testers'']"

text \<open>\<^verbatim>\<open>GiteeClient.issues\<close> and \<^verbatim>\<open>GiteeClient.pulls\<close>: the primary listings, sorted
  ascending by update time.\<close>

definition since :: "int option \<Rightarrow> payload" where
  "since from_date = (case from_date of None \<Rightarrow> [] | Some d \<Rightarrow> [(''since'', PDate d)])"

definition client_issues :: "backend \<Rightarrow> int option \<Rightarrow> gen" where
  "client_issues b from_date =
     Start Issues
       ([(''state'', PStr ''all''), (''per_page'', PInt (max_items b)),
         (''direction'', PStr ''asc''), (''sort'', PStr ''updated'')] @ since from_date)"

definition client_pulls :: "int option \<Rightarrow> gen" where
  "client_pulls from_date =
     Start Pulls
       ([(''state'', PStr ''all''), (''per_page'', PInt 100),
         (''direction'', PStr ''asc''), (''sort'', PStr ''updated'')] @ since from_date)"

text \<open>\<^verbatim>\<open>Gitee.__init_extra_issue_fields\<close> and \<^verbatim>\<open>Gitee.__init_extra_pull_fields\<close>.\<close>

definition init_extra_issue_fields :: "json \<Rightarrow> error + json" where
  "init_extra_issue_fields issue =
     (case setitem issue ''user_data'' (JObj []) of Inl e \<Rightarrow> Inl e | Inr i1 \<Rightarrow>
     (case setitem i1 ''assignee_data'' (JObj []) of Inl e \<Rightarrow> Inl e | Inr i2 \<Rightarrow>
     (case setitem i2 ''assignees_data'' (JArr []) of Inl e \<Rightarrow> Inl e | Inr i3 \<Rightarrow>
      setitem i3 ''comments_data'' (JArr []))))"

definition init_extra_pull_fields :: "json \<Rightarrow> error + json" where
  "init_extra_pull_fields pull =
     (case setitem pull ''user_data'' (JObj []) of Inl e \<Rightarrow> Inl e | Inr p1 \<Rightarrow>
     (case setitem p1 ''review_comments_data'' (JObj []) of Inl e \<Rightarrow> Inl e | Inr p2 \<Rightarrow>
     (case setitem p2 ''reviews_data'' (JArr []) of Inl e \<Rightarrow> Inl e | Inr p3 \<Rightarrow>
     (case setitem p3 ''merged_by_data'' (JArr []) of Inl e \<Rightarrow> Inl e | Inr p4 \<Rightarrow>
      setitem p4 ''commits_data'' (JArr [])))))"

text \<open>The body of \<^verbatim>\<open>for field in TARGET_ISSUE_FIELDS\<close>, after the test of
  \<^verbatim>\<open>issue[field]\<close>.\<close>

definition issue_field :: "nat \<Rightarrow> backend \<Rightarrow> string \<Rightarrow> json \<Rightarrow> json action" where
  "issue_field fuel b field issue =
     (if field = ''user'' then
        bindM (lift (subscript issue field)) (\<lambda>v.
        bindM (lift (subscript v ''login'')) (\<lambda>login.
        bindM (get_user b login) (\<lambda>d.
        lift (setitem issue (field @ ''_data'') d))))
      else if field = ''assignee'' then
        bindM (lift (subscript issue field)) (\<lambda>v.
        bindM (get_issue_assignee b v) (\<lambda>d.
        lift (setitem issue (field @ ''_data'') d)))
      else if field = ''collaborators'' then
        bindM (lift (subscript issue field)) (\<lambda>v.
        bindM (get_issue_collaborators b v) (\<lambda>d.
        lift (setitem issue (field @ ''_data'') d)))
      else if field = ''comments'' then
        bindM (lift (subscript issue ''number'')) (\<lambda>n.
        bindM (get_issue_comments fuel b n) (\<lambda>d.
        lift (setitem issue (field @ ''_data'') d)))
      else ret issue)"

fun issue_fields :: "nat \<Rightarrow> backend \<Rightarrow> string list \<Rightarrow> json \<Rightarrow> json action" where
  "issue_fields fuel b [] issue w = ret issue w"
| "issue_fields fuel b (field # others) issue w =
     bindM (lift (subscript issue field)) (\<lambda>v.
       if \<not> truthy v then (\<lambda>w'. issue_fields fuel b others issue w')
       else bindM (issue_field fuel b field issue) (\<lambda>issue' w'. issue_fields fuel b others issue' w')) w"

text \<open>One record of \<^verbatim>\<open>Gitee.__fetch_issues\<close>: \<open>None\<close> is the \<^verbatim>\<open>return\<close> at a record
  updated after \<open>to_date\<close>.\<close>

definition fetch_issue :: "nat \<Rightarrow> backend \<Rightarrow> int \<Rightarrow> json \<Rightarrow> json option action" where
  "fetch_issue fuel b to_date issue =
     bindM (lift (subscript issue ''updated_at'')) (\<lambda>updated_at.
     bindM (lift (str_to_datetime b updated_at)) (\<lambda>t.
       if t > to_date then ret None
       else
         bindM (lift (init_extra_issue_fields issue)) (\<lambda>issue0.
         bindM (issue_fields fuel b TARGET_ISSUE_FIELDS issue0) (\<lambda>issue'.
         ret (Some issue')))))"

definition fetch_issues ::
  "nat \<Rightarrow> backend \<Rightarrow> int \<Rightarrow> int \<Rightarrow> world \<Rightarrow> (json list \<times> error option) \<times> world" where
  "fetch_issues fuel b from_date to_date w =
     drive fuel b (page_body b (fetch_issue fuel b to_date)) (client_issues b (Some from_date)) w"

text \<open>The body of \<^verbatim>\<open>for field in TARGET_PULL_FIELDS\<close>, after the test of
  \<^verbatim>\<open>pull[field]\<close>.\<close>

definition pull_field :: "nat \<Rightarrow> backend \<Rightarrow> string \<Rightarrow> json \<Rightarrow> json action" where
  "pull_field fuel b field pull =
     (if field = ''user'' then
        bindM (lift (subscript pull field)) (\<lambda>v.
        bindM (lift (subscript v ''login'')) (\<lambda>login.
        bindM (get_user b login) (\<lambda>d.
        lift (setitem pull (field @ ''_data'') d))))
      else if field = ''merged_by'' then
        bindM (lift (subscript pull field)) (\<lambda>v.
        bindM (lift (subscript v ''login'')) (\<lambda>login.
        bindM (get_user b login) (\<lambda>d.
        lift (setitem pull (field @ ''_data'') d))))
      else if field = ''assignees'' \<or> field = ''testers'' then
        bindM (lift (subscript pull field)) (\<lambda>v.
        bindM (get_users b v) (\<lambda>d.
        lift (setitem pull (field @ ''_data'') d)))
      else if field = ''number'' then
        bindM (lift (subscript pull ''number'')) (\<lambda>n.
        bindM (get_pull_review_comments fuel b n) (\<lambda>review_comments.
        bindM (lift (setitem pull ''review_comments_data'' review_comments)) (\<lambda>pull1.
        bindM (lift (subscript pull1 ''number'')) (\<lambda>n1.
        bindM (get_pull_commits fuel b n1) (\<lambda>commits.
        bindM (lift (setitem pull1 ''commits_data'' commits)) (\<lambda>pull2.
        bindM (lift (subscript pull2 ''number'')) (\<lambda>n2.
        bindM (get_pull_merged_by fuel b n2) (\<lambda>merged_by.
        bindM (lift (setitem pull2 ''merged_by'' merged_by)) (\<lambda>pull3.
        bindM (lift (subscript pull3 ''merged_by'')) (\<lambda>m.
          if truthy m then
            bindM (lift (subscript pull3 ''merged_by'')) (\<lambda>m'.
            bindM (get_user b m') (\<lambda>d.
            lift (setitem pull3 ''merged_by_data'' d)))
          else ret pull3))))))))))
      else ret pull)"

fun pull_fields :: "nat \<Rightarrow> backend \<Rightarrow> string list \<Rightarrow> json \<Rightarrow> json action" where
  "pull_fields fuel b [] pull w = ret pull w"
| "pull_fields fuel b (field # others) pull w =
     bindM (lift (subscript pull field)) (\<lambda>v.
       if \<not> truthy v then (\<lambda>w'. pull_fields fuel b others pull w')
       else bindM (pull_field fuel b field pull) (\<lambda>pull' w'. pull_fields fuel b others pull' w')) w"

text \<open>One record of \<^verbatim>\<open>Gitee.__fetch_pull_requests\<close>: \<open>None\<close> is the \<^verbatim>\<open>return\<close> at
  a record updated before \<open>from_date\<close> or after \<open>to_date\<close>.\<close>

definition fetch_pull :: "nat \<Rightarrow> backend \<Rightarrow> int \<Rightarrow> int \<Rightarrow> json \<Rightarrow> json option action" where
  "fetch_pull fuel b from_date to_date pull =
     bindM (lift (subscript pull ''updated_at'')) (\<lambda>updated_at.
     bindM (lift (str_to_datetime b updated_at)) (\<lambda>t.
       if t < from_date then ret None
       else
         bindM (lift (subscript pull ''updated_at'')) (\<lambda>updated_at'.
         bindM (lift (str_to_datetime b updated_at')) (\<lambda>t'.
           if t' > to_date then ret None
           else
             bindM (lift (init_extra_pull_fields pull)) (\<lambda>pull0.
             bindM (pull_fields fuel b TARGET_PULL_FIELDS pull0) (\<lambda>pull'.
             ret (Some pull')))))))"

definition fetch_pull_requests ::
  "nat \<Rightarrow> backend \<Rightarrow> int \<Rightarrow> int \<Rightarrow> world \<Rightarrow> (json list \<times> error option) \<times> world" where
  "fetch_pull_requests fuel b from_date to_date w =
     drive fuel b (page_body b (fetch_pull fuel b from_date to_date)) (client_pulls (Some from_date)) w"

text \<open>\<^verbatim>\<open>Gitee.__fetch_repo_info\<close>, with \<^verbatim>\<open>GiteeClient.repo\<close> and
  \<^verbatim>\<open>GiteeClient.repo_releases\<close>: one snapshot.\<close>

definition repo_info :: "backend \<Rightarrow> json action" where
  "repo_info b =
     bindM (client_fetch b Repo []) (\<lambda>r.
     bindM (lift (loads b (rtext r))) (\<lambda>repo.
     bindM (client_fetch b RepoReleases []) (\<lambda>r'.
     bindM (lift (loads b (rtext r'))) (\<lambda>repo_releases.
     bindM (lift (setitem repo ''releases'' repo_releases)) (\<lambda>repo1.
     lift (setitem repo1 ''fetched_on'' (JNum (datetime_utcnow b))))))))"

definition fetch_repo_info :: "backend \<Rightarrow> world \<Rightarrow> (json list \<times> error option) \<times> world" where
  "fetch_repo_info b w =
     (case repo_info b w of
        (Inl e, w') \<Rightarrow> (([], Some e), w')
      | (Inr repo, w') \<Rightarrow> (([repo], None), w'))"

section \<open>Dispatch on the category\<close>

text \<open>\<^verbatim>\<open>Gitee.fetch_items\<close>. The result is tagged with the driver that produced it.\<close>

datatype driver = IssueDriver | PullRequestDriver | RepoDriver

definition fetch_items ::
  "nat \<Rightarrow> backend \<Rightarrow> string \<Rightarrow> int \<Rightarrow> int \<Rightarrow> world \<Rightarrow>
     driver \<times> (json list \<times> error option) \<times> world" where
  "fetch_items fuel b category from_date to_date w =
     (if category = CATEGORY_ISSUE then (IssueDriver, fetch_issues fuel b from_date to_date w)
      else if category = CATEGORY_PULL_REQUEST then
        (PullRequestDriver, fetch_pull_requests fuel b from_date to_date w)
      else (RepoDriver, fetch_repo_info b w))"

text \<open>
  Modelled from the spec: the constants \<^verbatim>\<open>DEFAULT_DATETIME\<close> and
  \<^verbatim>\<open>DEFAULT_LAST_DATETIME\<close> of \<^verbatim>\<open>perceval.utils\<close>, which are not among the sources:
  ``an epoch-minimum and a far-future maximum'', here the timestamps of 1970-01-01 and
  2100-01-01.
\<close>

definition DEFAULT_DATETIME :: int where
  "DEFAULT_DATETIME = 0"

definition DEFAULT_LAST_DATETIME :: int where
  "DEFAULT_LAST_DATETIME = 4102444800"

text \<open>
  Modelled from the spec: the inherited \<^verbatim>\<open>Backend.fetch\<close>, which \<^verbatim>\<open>Gitee.fetch\<close> calls
  and which is not among the sources. It ``dispatches to one of three category drivers
  based on category in {issue, pull_request, repository}; any other value is a
  configuration error reported to the caller'', ``reported before any network
  activity''. The categories are the list \<open>CATEGORIES\<close> that the backend declares. For a
  category of the list it runs \<^verbatim>\<open>Gitee.fetch_items\<close>; the result says which driver ran,
  if any.
\<close>

definition backend_fetch ::
  "nat \<Rightarrow> backend \<Rightarrow> string \<Rightarrow> int \<Rightarrow> int \<Rightarrow> world \<Rightarrow>
     (driver option \<times> json list \<times> error option) \<times> world" where
  "backend_fetch fuel b category from_date to_date w =
     (if category \<notin> set CATEGORIES then ((None, [], Some (ConfigurationError category)), w)
      else
        (case fetch_items fuel b category from_date to_date w of
           (d, r, w') \<Rightarrow> ((Some d, r), w')))"

text \<open>\<^verbatim>\<open>Gitee.fetch\<close>: it sets \<open>exclude_user_data\<close>, replaces a missing date by its default
  and calls the inherited method.\<close>

definition fetch ::
  "nat \<Rightarrow> backend \<Rightarrow> string \<Rightarrow> int option \<Rightarrow> int option \<Rightarrow> bool \<Rightarrow> world \<Rightarrow>
     (driver option \<times> json list \<times> error option) \<times> world" where
  "fetch fuel b category from_date to_date filter_classified w =
     backend_fetch fuel (b\<lparr>exclude_user_data := filter_classified\<rparr>) category
       (case from_date of None \<Rightarrow> DEFAULT_DATETIME | Some d \<Rightarrow> d)
       (case to_date of None \<Rightarrow> DEFAULT_LAST_DATETIME | Some d \<Rightarrow> d) w"

text \<open>
  Claim C10. A fetch with a category outside \<open>issue\<close>, \<open>pull_request\<close> and
  \<open>repository\<close> ends with a configuration error, leaves the state as it was, so that no
  request has been sent, and runs no driver. For a category of the three, the fetch runs
  the dispatch, and the dispatch runs the driver of that category: the issue driver for
  \<open>issue\<close>, the pull-request driver for \<open>pull_request\<close>, the repository driver for
  \<open>repository\<close>.
\<close>

theorem fetch_unknown_category:
  "(category \<notin> set CATEGORIES \<longrightarrow>
      fetch fuel b category from_date to_date filter_classified w =
        ((None, [], Some (ConfigurationError category)), w)) \<and>
   (category \<in> set CATEGORIES \<longrightarrow>
      fetch fuel b category (Some f) (Some t) filter_classified w =
        (case fetch_items fuel (b\<lparr>exclude_user_data := filter_classified\<rparr>) category f t w of
           (d, r, w') \<Rightarrow> ((Some d, r), w'))) \<and>
   fetch_items fuel b CATEGORY_ISSUE f t w = (IssueDriver, fetch_issues fuel b f t w) \<and>
   fetch_items fuel b CATEGORY_PULL_REQUEST f t w =
     (PullRequestDriver, fetch_pull_requests fuel b f t w) \<and>
   fetch_items fuel b CATEGORY_REPO f t w = (RepoDriver, fetch_repo_info b w)"
  by (simp add: fetch_def backend_fetch_def fetch_items_def CATEGORIES_def CATEGORY_ISSUE_def
      CATEGORY_PULL_REQUEST_def CATEGORY_REPO_def)

text \<open>
  The dispatch has no test of its own: called directly with another value, its last
  branch runs the repository driver. Only the inherited method stands before it.
\<close>

lemma fetch_items_else_branch:
  "''wiki'' \<notin> set CATEGORIES \<and>
   fetch_items 4 (client_of gap_pages) ''wiki'' 0 0 world0 =
     (RepoDriver, ([], Some (HTTPError 404)), world0\<lparr>requests := [(Repo, [])]\<rparr>)"
  by (simp add: fetch_items_def CATEGORIES_def CATEGORY_ISSUE_def CATEGORY_PULL_REQUEST_def
      CATEGORY_REPO_def fetch_repo_info_def repo_info_def bindM_def client_fetch_def client_of_def
      with_token_def world0_def)

section \<open>The identity cache\<close>

text \<open>A login in a cache is answered from it; a login that is not is requested once
  and stored.\<close>

lemma client_user_hit:
  "py_key login = Inr k \<Longrightarrow> map_of (users w) k = Some t \<Longrightarrow> client_user b login w = (Inr t, w)"
  by (simp add: client_user_def bindM_def lift_def)

lemma client_user_orgs_hit:
  "py_key login = Inr k \<Longrightarrow> map_of (users_orgs w) k = Some t \<Longrightarrow> client_user_orgs b login w = (Inr t, w)"
  by (simp add: client_user_orgs_def bindM_def lift_def)

lemma client_user_miss:
  "py_key login = Inr k \<Longrightarrow> map_of (users w) k = None \<Longrightarrow> client_user b login w = (Inr t, w') \<Longrightarrow>
   w' = w\<lparr>requests := requests w @ [(User login, with_token b [])], users := AList.update k t (users w)\<rparr>"
  by (auto simp: client_user_def bindM_def lift_def client_fetch_def split: sum.splits)

lemma client_user_orgs_miss:
  "py_key login = Inr k \<Longrightarrow> map_of (users_orgs w) k = None \<Longrightarrow> client_user_orgs b login w = (Inr t, w') \<Longrightarrow>
   requests w' = requests w @ [(UserOrgs login, with_token b [])] \<and>
   users w' = users w \<and> users_orgs w' = AList.update k t (users_orgs w)"
  by (auto simp: client_user_orgs_def fetch_orgs_def bindM_def lift_def client_fetch_def log_event_def ret_def
      split: sum.splits error.splits if_splits)

text \<open>
  Claim C5. Take a non-empty login that is not yet in the caches, with classification
  filtering off, and let its first resolution succeed. That resolution has sent exactly
  one request for the user and one for the user's organizations, and a second resolution
  returns the same result and leaves the state as it is: it sends no request.
\<close>

theorem get_user_cached:
  assumes "truthy login" and "\<not> exclude_user_data b"
    and "py_key login = Inr k"
    and "map_of (users w) k = None" and "map_of (users_orgs w) k = None"
    and "get_user b login w = (Inr u, w1)"
  shows "get_user b login w1 = (Inr u, w1) \<and>
         requests w1 = requests w @ [(User login, with_token b []), (UserOrgs login, with_token b [])]"
proof -
  from assms(1,2,6) obtain user_raw wa user orgs_raw orgs where
    a: "client_user b login w = (Inr user_raw, wa)" and
    b: "loads b user_raw = Inr user" and
    c: "client_user_orgs b login wa = (Inr orgs_raw, w1)" and
    d: "loads b orgs_raw = Inr orgs" and
    e: "setitem user ''organizations'' orgs = Inr u"
    by (auto simp: get_user_def bindM_def lift_def split: sum.splits prod.splits)
  have wa: "wa = w\<lparr>requests := requests w @ [(User login, with_token b [])], users := AList.update k user_raw (users w)\<rparr>"
    using client_user_miss [OF assms(3,4) a] .
  have miss: "map_of (users_orgs wa) k = None" using wa assms(5) by simp
  have w1: "requests w1 = requests wa @ [(UserOrgs login, with_token b [])]"
    "users w1 = users wa" "users_orgs w1 = AList.update k orgs_raw (users_orgs wa)"
    using client_user_orgs_miss [OF assms(3) miss c] by auto
  have hit1: "client_user b login w1 = (Inr user_raw, w1)"
    by (rule client_user_hit [OF assms(3)]) (simp add: w1 wa update_conv')
  have hit2: "client_user_orgs b login w1 = (Inr orgs_raw, w1)"
    by (rule client_user_orgs_hit [OF assms(3)]) (simp add: w1 update_conv')
  have "get_user b login w1 = (Inr u, w1)"
    using assms(1,2) by (simp add: get_user_def bindM_def lift_def hit1 hit2 b d e)
  moreover have "requests w1 = requests w @ [(User login, with_token b []), (UserOrgs login, with_token b [])]"
    by (simp add: w1 wa)
  ultimately show ?thesis by simp
qed

section \<open>Comments without a user\<close>

text \<open>
  Claim C8 fails for issue comments: \<^verbatim>\<open>Gitee.__get_issue_comments\<close> reads
  \<^verbatim>\<open>comment['user']['login']\<close> without a guard, so a comment that has no \<open>user\<close> field
  raises \<^verbatim>\<open>KeyError\<close>, with no warning and no \<open>user_data\<close>.
\<close>

theorem issue_comment_without_user:
  "issue_comment b (JObj [(''id'', JNum 1), (''body'', JStr ''hello'')]) w = (Inl (KeyError ''user''), w)"
  by (simp add: issue_comment_def bindM_def lift_def)

text \<open>
  \<^verbatim>\<open>Gitee.__get_pull_review_comments\<close> has the guard: a review comment without a
  \<open>user\<close> field, and with the \<open>url\<close> that the warning prints, gets an absent
  \<open>user_data\<close> and one warning, and nothing is raised.
\<close>

lemma review_comment_without_user:
  "map_of comment ''user'' = None \<Longrightarrow> map_of comment ''url'' = Some url \<Longrightarrow>
   review_comment b (JObj comment) w =
     (Inr (Some (JObj (AList.update ''user_data'' JNull comment))),
      w\<lparr>events := events w @ [LogWarning missing_user (Value url)]\<rparr>)"
  by (simp add: review_comment_def bindM_def lift_def log_event_def ret_def split: option.splits)

section \<open>A fixture repository\<close>

text \<open>
  A small server for the concrete scenarios: two pages of issues, the second out of
  order; pull requests 42 and 43 by \<open>bob\<close>, whose action logs have two pages, the merge
  by \<open>alice\<close> on the second; a commit listing whose second page is not found for every
  pull request but 42; two known users, \<open>alice\<close> and \<open>bob\<close>, the organizations of
  \<open>bob\<close> not found. The decoders are finite tables over the bodies that the server
  sends.
\<close>

definition pull_of :: "int \<Rightarrow> string \<Rightarrow> dict" where
  "pull_of n day = [(''number'', JNum n), (''updated_at'', JStr day),
     (''user'', JObj [(''login'', JStr ''bob'')]), (''assignees'', JArr []), (''testers'', JArr []),
     (''base'', JObj [(''ref'', JStr ''master'')])]"

definition issue_of :: "int \<Rightarrow> string \<Rightarrow> json \<Rightarrow> json" where
  "issue_of n day user = JObj [(''number'', JNum n), (''updated_at'', JStr day), (''user'', user),
     (''assignee'', JNull), (''collaborators'', JArr []), (''comments'', JNum 0)]"

definition log_entry :: "string \<Rightarrow> string \<Rightarrow> json" where
  "log_entry action login = JObj [(''action_type'', JStr action), (''user'', JObj [(''login'', JStr login)])]"

definition fixture_loads :: "string \<Rightarrow> error + json" where
  "fixture_loads s =
     (if s = ''{alice}'' then Inr (JObj [(''login'', JStr ''alice''), (''name'', JStr ''Alice'')])
      else if s = ''{bob}'' then Inr (JObj [(''login'', JStr ''bob''), (''name'', JStr ''Bob'')])
      else if s = ''[acme]'' then Inr (JArr [JObj [(''login'', JStr ''acme'')]])
      else if s = ''[]'' then Inr (JArr [])
      else if s = ''logs 1'' then Inr (JArr [log_entry ''opened_pr'' ''bob''])
      else if s = ''logs 2'' then
        Inr (JArr [log_entry ''tested_pr'' ''bob'', log_entry ''merged_pr'' ''alice'',
                   log_entry ''merged_pr'' ''carol''])
      else if s = ''pulls 1'' then Inr (JArr [JObj (pull_of 42 ''day 15''), JObj (pull_of 43 ''day 30'')])
      else if s = ''commits 1'' then Inr (JArr [JObj [(''sha'', JStr ''abc'')]])
      else if s = ''issues 1'' then
        Inr (JArr [issue_of 1 ''day 10'' (JObj [(''login'', JStr ''alice'')]), issue_of 2 ''day 20'' JNull])
      else if s = ''issues 2'' then
        Inr (JArr [issue_of 3 ''day 30'' JNull, issue_of 4 ''day 15'' JNull])
      else if s = ''{repo}'' then Inr (JObj [(''id'', JNum 1), (''forks_count'', JNum 3)])
      else if s = ''[releases]'' then Inr (JArr [JObj [(''tag_name'', JStr ''v1'')], JObj [(''tag_name'', JStr ''v2'')]])
      else Inl ValueError)"

definition fixture_time :: "json \<Rightarrow> error + int" where
  "fixture_time j =
     (if j = JStr ''day 10'' then Inr 10 else if j = JStr ''day 15'' then Inr 15
      else if j = JStr ''day 20'' then Inr 20 else if j = JStr ''day 30'' then Inr 30
      else Inl ValueError)"

fun fixture_server :: "request \<Rightarrow> error + response" where
  "fixture_server (Issues, p) = Inr (page ''issues 1'' (Some ''2'') (Some ''issues?page=2''))"
| "fixture_server (IssueComments n, p) = Inr (page ''[]'' (Some ''1'') None)"
| "fixture_server (Pulls, p) = Inr (page ''pulls 1'' (Some ''1'') None)"
| "fixture_server (PullComments n, p) = Inr (page ''[]'' (Some ''1'') None)"
| "fixture_server (PullCommits n, p) =
     (if n = JNum 42 then Inr (page ''commits 1'' (Some ''1'') None)
      else Inr (page ''commits 1'' (Some ''2'') (Some ''commits?page=2'')))"
| "fixture_server (PullOperateLogs n, p) = Inr (page ''logs 1'' (Some ''2'') (Some ''logs?page=2''))"
| "fixture_server (Repo, p) = Inr (page ''{repo}'' None None)"
| "fixture_server (RepoReleases, p) = Inr (page ''[releases]'' None None)"
| "fixture_server (User login, p) =
     (if login = JStr ''alice'' then Inr (page ''{alice}'' None None)
      else if login = JStr ''bob'' then Inr (page ''{bob}'' None None)
      else Inl (HTTPError 404))"
| "fixture_server (UserOrgs login, p) =
     (if login = JStr ''alice'' then Inr (page ''[acme]'' None None) else Inl (HTTPError 404))"
| "fixture_server (Link u, p) =
     (if u = ''issues?page=2'' then Inr (page ''issues 2'' (Some ''2'') None)
      else if u = ''logs?page=2'' then Inr (page ''logs 2'' (Some ''2'') None)
      else Inl (HTTPError 404))"

definition fixture :: backend where
  "fixture = \<lparr>transport = fixture_server, loads = fixture_loads, str_to_datetime = fixture_time,
     datetime_utcnow = 1000, access_token = None, max_items = 100, exclude_user_data = False\<rparr>"

lemmas fixture_simps = fixture_def fixture_loads_def fixture_time_def page_def with_token_def
  world0_def pull_of_def issue_of_def log_entry_def



text \<open>Steps of the state-and-exception monad.\<close>

lemma bindM_lift_Inr [simp]: "bindM (lift (Inr x)) g = g x"
  by (rule ext) (simp add: bindM_def lift_def)

lemma bindM_lift_Inl [simp]: "bindM (lift (Inl e)) g w = (Inl e, w)"
  by (simp add: bindM_def lift_def)

lemma bindM_ret [simp]: "bindM (ret x) g = g x"
  by (rule ext) (simp add: bindM_def ret_def)

section \<open>The identity cache on the fixture\<close>

lemma get_user_alice:
  "get_user fixture (JStr ''alice'') world0 =
    (Inr (JObj [(''login'', JStr ''alice''), (''name'', JStr ''Alice''),
         (''organizations'', JArr [JObj [(''login'', JStr ''acme'')]])]),
     \<lparr>requests = [(User (JStr ''alice''), []), (UserOrgs (JStr ''alice''), [])], events = [],
        users = [(JStr ''alice'', ''{alice}'')], users_orgs = [(JStr ''alice'', ''[acme]'')]\<rparr>)"
  by (simp add: get_user_def client_user_def client_user_orgs_def fetch_orgs_def fixture_simps
      bindM_def client_fetch_def lift_def)

theorem get_user_cached_witness:
  "get_user fixture (JStr ''alice'') (snd (get_user fixture (JStr ''alice'') world0)) =
     get_user fixture (JStr ''alice'') world0 \<and>
   requests (snd (get_user fixture (JStr ''alice'') world0)) =
     [(User (JStr ''alice''), []), (UserOrgs (JStr ''alice''), [])]"
  using get_user_cached [of "JStr ''alice''" fixture "JStr ''alice''" world0, OF _ _ _ _ _ get_user_alice]
  by (simp add: get_user_alice) (simp add: fixture_simps)

section \<open>Who merged a pull request\<close>










text \<open>What a successful action gives, read backwards.\<close>

lemma bindM_Inr_elim:
  "bindM f g w = (Inr y, w') \<Longrightarrow> \<exists>x w1. f w = (Inr x, w1) \<and> g x w1 = (Inr y, w')"
  by (auto simp: bindM_def split: sum.splits prod.splits)

lemma lift_Inr [simp]: "lift r w = (Inr x, w') \<longleftrightarrow> r = Inr x \<and> w' = w"
  by (auto simp: lift_def)

lemma ret_Inr [simp]: "ret y w = (Inr x, w') \<longleftrightarrow> y = x \<and> w' = w"
  by (auto simp: ret_def)

lemma subscript_setitem:
  "setitem x k v = Inr y \<Longrightarrow> subscript y k' = (if k' = k then Inr v else subscript x k')"
  by (cases x) (auto simp: update_conv')


lemma bindM_Inl: "f w = (Inl e, w1) \<Longrightarrow> bindM f g w = (Inl e, w1)"
  by (simp add: bindM_def)




definition alice_record :: json where
  "alice_record = JObj [(''login'', JStr ''alice''), (''name'', JStr ''Alice''),
     (''organizations'', JArr [JObj [(''login'', JStr ''acme'')]])]"

lemmas driver_simps = eval_nat_numeral bindM_def client_fetch_def lift_def read_total_page_def
  digit_of_def ret_def page_of_def page_body_def get_user_def client_user_def client_user_orgs_def
  fetch_orgs_def log_event_def collect_def collect_tolerant_def PER_PAGE_def



lemma fetch_pull_42:
  "fst (fetch_pull_requests 3 fixture 0 20 world0) =
    ([JObj
     [(''number'', JNum 42), (''updated_at'', JStr ''day 15''),
      (''user'', JObj [(''login'', JStr ''bob'')]),
      (''assignees'', JArr []), (''testers'', JArr []),
      (''base'', JObj [(''ref'', JStr ''master'')]),
      (''user_data'',
       JObj [(''login'', JStr ''bob''), (''name'', JStr ''Bob''), (''organizations'', JArr [])]),
      (''review_comments_data'', JArr []), (''reviews_data'', JArr []),
      (''merged_by_data'', alice_record),
      (''commits_data'', JArr [JStr ''abc'']),
      (''merged_by'', JStr ''alice'')]], None)"
  by (simp add: fetch_pull_requests_def client_pulls_def since_def fixture_simps driver_simps
      fetch_pull_def init_extra_pull_fields_def TARGET_PULL_FIELDS_def pull_field_def get_users_def
      get_pull_review_comments_def client_pull_review_comments_def
      get_pull_commits_def client_pull_commits_def pull_commit_def
      get_pull_merged_by_def client_pull_action_logs_def action_logs_body_def alice_record_def)


section \<open>The time window of the drivers\<close>

text \<open>
  To state what the drivers emit: an item without the fields that the enrichment writes;
  the update time of an item, as the drivers read it; and the records of a listing as a
  consumer that takes every page and every record gets them (the upstream list).
\<close>

fun without :: "string list \<Rightarrow> json \<Rightarrow> json" where
  "without K (JObj kvs) = JObj (filter (\<lambda>kv. fst kv \<notin> set K) kvs)"
| "without K j = j"

definition updated_on :: "backend \<Rightarrow> json \<Rightarrow> error + int" where
  "updated_on b item =
     (case subscript item ''updated_at'' of Inl e \<Rightarrow> Inl e | Inr u \<Rightarrow> str_to_datetime b u)"

definition upstream :: "nat \<Rightarrow> backend \<Rightarrow> gen \<Rightarrow> world \<Rightarrow> json list" where
  "upstream fuel b g w = fst (fst (drive fuel b (page_body b (\<lambda>x. ret (Some x))) g w))"

text \<open>
  The emitted items are, up to the enrichment fields, a prefix of the upstream list; every
  upstream record of that prefix is kept; and when the run ends without an exception
  before the end of the upstream list, the first record left out is one that stops the
  run.
\<close>

definition window ::
  "(json \<Rightarrow> bool) \<Rightarrow> (json \<Rightarrow> bool) \<Rightarrow> string list \<Rightarrow> json list \<Rightarrow> error option \<Rightarrow> json list \<Rightarrow> bool" where
  "window keep stops K emitted exc ups =
     (length emitted \<le> length ups \<and>
      map (without K) emitted = map (without K) (take (length emitted) ups) \<and>
      list_all keep (take (length emitted) ups) \<and>
      (exc = None \<and> length emitted < length ups \<longrightarrow> stops (ups ! length emitted)))"

lemma filter_update_key:
  "k \<in> set K \<Longrightarrow> filter (\<lambda>kv. fst kv \<notin> set K) (AList.update k v al) = filter (\<lambda>kv. fst kv \<notin> set K) al"
  by (induction al) auto

lemma without_setitem:
  "setitem x k v = Inr y \<Longrightarrow> k \<in> set K \<Longrightarrow> without K y = without K x"
  by (cases x) (auto simp: filter_update_key)

lemma map_of_filter_key:
  "k \<notin> set K \<Longrightarrow> map_of (filter (\<lambda>kv. fst kv \<notin> set K) al) k = map_of al k"
  by (induction al) auto

lemma subscript_without:
  "k \<notin> set K \<Longrightarrow> subscript (without K x) k = subscript x k"
  by (cases x) (auto simp: map_of_filter_key)

lemma updated_on_without:
  "''updated_at'' \<notin> set K \<Longrightarrow> without K y = without K x \<Longrightarrow> updated_on b y = updated_on b x"
  unfolding updated_on_def
  by (metis subscript_without)

lemma each_all: "each (\<lambda>x. ret (Some x)) xs w = ((xs, Continue), w)"
  by (induction xs) (auto simp: ret_def)

text \<open>What the step for one record must do: keep a record it emits and leave its own fields
  alone, and return only at a record that stops the run.\<close>

definition step_ok ::
  "(json \<Rightarrow> json option action) \<Rightarrow> (json \<Rightarrow> bool) \<Rightarrow> (json \<Rightarrow> bool) \<Rightarrow> string list \<Rightarrow> bool" where
  "step_ok step keep stops K =
     (\<forall>x w. case step x w of
        (Inr (Some y), w') \<Rightarrow> keep x \<and> without K y = without K x
      | (Inr None, w') \<Rightarrow> stops x
      | (Inl e, w') \<Rightarrow> True)"

lemma each_window:
  assumes ok: "step_ok step keep stops K"
  shows "each step xs w = ((outs, fl), w') \<Longrightarrow>
     length outs \<le> length xs \<and>
     map (without K) outs = map (without K) (take (length outs) xs) \<and>
     list_all keep (take (length outs) xs) \<and>
     (fl = Continue \<longrightarrow> length outs = length xs) \<and>
     (fl = Return \<longrightarrow> length outs < length xs \<and> stops (xs ! length outs))"
proof (induction xs arbitrary: w outs fl w')
  case Nil
  then show ?case by simp
next
  case (Cons x xs)
  show ?case
  proof (cases "step x w")
    case (Pair r w1)
    show ?thesis
    proof (cases r)
      case (Inl e)
      with Pair Cons.prems show ?thesis by auto
    next
      case (Inr o1)
      show ?thesis
      proof (cases o1)
        case None
        with Inr Pair Cons.prems ok show ?thesis
          by (auto simp: step_ok_def dest!: spec [where x = x] spec [where x = w])
      next
        case (Some y)
        obtain ys fl2 w2 where rest: "each step xs w1 = ((ys, fl2), w2)"
          by (metis prod.exhaust)
        from Some Inr Pair Cons.prems rest have o: "outs = y # ys" "fl = fl2" by auto
        from ok Some Inr Pair have k: "keep x" "without K y = without K x"
          by (auto simp: step_ok_def dest!: spec [where x = x] spec [where x = w])
        from Cons.IH [OF rest] o k show ?thesis by auto
      qed
    qed
  qed
qed

text \<open>The pages that the generator yields do not depend on the state, which only records
  the requests.\<close>

lemma gen_next_value: "fst (gen_next b g w) = fst (gen_next b g w0)"
  by (cases g)
     (auto simp: bindM_def client_fetch_def lift_def ret_def raise_def
       split: sum.splits option.splits prod.splits)

lemma upstream_0: "upstream 0 b g w = []"
  by (simp add: upstream_def)

lemma upstream_Suc:
  "upstream (Suc n) b g w =
    (case gen_next b g w of
       (Inr (Some (raw, g')), w1) \<Rightarrow>
         (case loads b raw of
            Inl e \<Rightarrow> []
          | Inr decoded \<Rightarrow> (case py_iter decoded of Inl e \<Rightarrow> [] | Inr xs \<Rightarrow> xs @ upstream n b g' w1))
     | _ \<Rightarrow> [])"
  by (auto simp: upstream_def page_body_def each_all split: sum.splits option.splits prod.splits)

lemma window_none: "window keep stops K [] (Some e) ups"
  by (simp add: window_def)

lemma window_empty: "window keep stops K [] exc []"
  by (simp add: window_def)

lemma window_append:
  "length outs = length xs \<Longrightarrow> map (without K) outs = map (without K) xs \<Longrightarrow> list_all keep xs \<Longrightarrow>
   window keep stops K outs' exc ups' \<Longrightarrow> window keep stops K (outs @ outs') exc (xs @ ups')"
  by (auto simp: window_def nth_append)

lemma window_stop:
  "length outs \<le> length xs \<Longrightarrow> map (without K) outs = map (without K) (take (length outs) xs) \<Longrightarrow>
   list_all keep (take (length outs) xs) \<Longrightarrow>
   (exc = None \<longrightarrow> length outs < length xs \<and> stops (xs ! length outs)) \<Longrightarrow>
   window keep stops K outs exc (xs @ ups')"
  by (auto simp: window_def nth_append)

lemma drive_window:
  assumes ok: "step_ok step keep stops K"
  shows "window keep stops K (fst (fst (drive fuel b (page_body b step) g w)))
           (snd (fst (drive fuel b (page_body b step) g w))) (upstream fuel b g w0)"
proof (induction fuel arbitrary: g w w0)
  case 0
  show ?case by (simp add: window_none)
next
  case (Suc n)
  obtain v w1 where g1: "gen_next b g w = (v, w1)" by (metis prod.exhaust)
  obtain w1' where g2: "gen_next b g w0 = (v, w1')"
    using gen_next_value [of b g w w0] g1 by (metis fst_conv prod.exhaust)
  show ?case
  proof (cases v)
    case (Inl e)
    with g1 show ?thesis by (simp add: window_none)
  next
    case (Inr o1)
    show ?thesis
    proof (cases o1)
      case None
      with Inr g1 g2 show ?thesis by (simp add: upstream_Suc window_empty)
    next
      case (Some pg)
      obtain raw g' where pg: "pg = (raw, g')" by (metis prod.exhaust)
      show ?thesis
      proof (cases "loads b raw")
        case (Inl e)
        with Some Inr g1 pg show ?thesis by (simp add: page_body_def window_none)
      next
        case l: (Inr decoded)
        show ?thesis
        proof (cases "py_iter decoded")
          case (Inl e)
          with l Some Inr g1 pg show ?thesis by (simp add: page_body_def window_none)
        next
          case it: (Inr xs)
          obtain outs fl w2 where e: "each step xs w1 = ((outs, fl), w2)"
            by (metis prod.exhaust)
          have ew: "length outs \<le> length xs \<and>
             map (without K) outs = map (without K) (take (length outs) xs) \<and>
             list_all keep (take (length outs) xs) \<and>
             (fl = Continue \<longrightarrow> length outs = length xs) \<and>
             (fl = Return \<longrightarrow> length outs < length xs \<and> stops (xs ! length outs))"
            by (rule each_window [OF ok e])
          have ups: "upstream (Suc n) b g w0 = xs @ upstream n b g' w1'"
            using g2 Inr Some pg l it by (simp add: upstream_Suc)
          have body: "page_body b step raw w1 = ((outs, fl), w2)"
            using l it e by (simp add: page_body_def)
          show ?thesis
          proof (cases fl)
            case Continue
            obtain outs' r w3 where d: "drive n b (page_body b step) g' w2 = ((outs', r), w3)"
              by (metis prod.exhaust)
            have "window keep stops K outs' r (upstream n b g' w1')"
              using Suc.IH [of g' w2 w1'] d by simp
            moreover have "length outs = length xs" "map (without K) outs = map (without K) xs"
              "list_all keep xs"
              using ew Continue by auto
            ultimately have "window keep stops K (outs @ outs') r (xs @ upstream n b g' w1')"
              by (intro window_append)
            then show ?thesis
              using g1 Inr Some pg body Continue d ups by simp
          next
            case Return
            have "window keep stops K outs None (xs @ upstream n b g' w1')"
              using ew Return by (intro window_stop) auto
            then show ?thesis
              using g1 Inr Some pg body Return ups by simp
          next
            case (Raise e')
            have "window keep stops K outs (Some e') (xs @ upstream n b g' w1')"
              using ew by (intro window_stop) auto
            then show ?thesis
              using g1 Inr Some pg body Raise ups by simp
          qed
        qed
      qed
    qed
  qed
qed


text \<open>The fields that the enrichment of an issue, and of a pull request, writes.\<close>

definition ISSUE_DATA_FIELDS :: "string list" where
  "ISSUE_DATA_FIELDS = [''user_data'', ''assignee_data'', ''assignees_data'', ''comments_data'',
     ''collaborators_data'']"

definition PULL_DATA_FIELDS :: "string list" where
  "PULL_DATA_FIELDS = [''user_data'', ''review_comments_data'', ''reviews_data'', ''merged_by_data'',
     ''commits_data'', ''merged_by'', ''assignees_data'', ''testers_data'']"

lemma setitem_Inr:
  "setitem x k v = Inr y \<longleftrightarrow> (\<exists>kvs. x = JObj kvs \<and> y = JObj (AList.update k v kvs))"
  by (cases x) auto

lemma issue_keys:
  "''user_data'' \<in> set ISSUE_DATA_FIELDS" "''assignee_data'' \<in> set ISSUE_DATA_FIELDS"
  "''assignees_data'' \<in> set ISSUE_DATA_FIELDS" "''comments_data'' \<in> set ISSUE_DATA_FIELDS"
  "''collaborators_data'' \<in> set ISSUE_DATA_FIELDS"
  by (simp_all add: ISSUE_DATA_FIELDS_def)

lemma pull_keys:
  "''user_data'' \<in> set PULL_DATA_FIELDS" "''review_comments_data'' \<in> set PULL_DATA_FIELDS"
  "''reviews_data'' \<in> set PULL_DATA_FIELDS" "''merged_by_data'' \<in> set PULL_DATA_FIELDS"
  "''commits_data'' \<in> set PULL_DATA_FIELDS" "''merged_by'' \<in> set PULL_DATA_FIELDS"
  "''assignees_data'' \<in> set PULL_DATA_FIELDS" "''testers_data'' \<in> set PULL_DATA_FIELDS"
  by (simp_all add: PULL_DATA_FIELDS_def)

lemma init_extra_issue_fields_without:
  "init_extra_issue_fields x = Inr y \<Longrightarrow> without ISSUE_DATA_FIELDS y = without ISSUE_DATA_FIELDS x"
  by (auto simp: init_extra_issue_fields_def setitem_Inr filter_update_key issue_keys
      split: sum.splits)

lemma init_extra_pull_fields_without:
  "init_extra_pull_fields x = Inr y \<Longrightarrow> without PULL_DATA_FIELDS y = without PULL_DATA_FIELDS x"
  by (auto simp: init_extra_pull_fields_def setitem_Inr filter_update_key pull_keys
      split: sum.splits)

lemma issue_field_without:
  assumes "issue_field fuel b field x w = (Inr y, w')"
  shows "without ISSUE_DATA_FIELDS y = without ISSUE_DATA_FIELDS x"
proof -
  consider "field = ''user''" | "field = ''assignee''" | "field = ''collaborators''"
    | "field = ''comments''"
    | "field \<noteq> ''user''" "field \<noteq> ''assignee''" "field \<noteq> ''collaborators''" "field \<noteq> ''comments''"
    by blast
  then show ?thesis
  proof cases
    case 1
    with assms show ?thesis
      by (auto simp: issue_field_def setitem_Inr filter_update_key issue_keys dest!: bindM_Inr_elim)
  next
    case 2
    with assms show ?thesis
      by (auto simp: issue_field_def setitem_Inr filter_update_key issue_keys dest!: bindM_Inr_elim)
  next
    case 3
    with assms show ?thesis
      by (auto simp: issue_field_def setitem_Inr filter_update_key issue_keys dest!: bindM_Inr_elim)
  next
    case 4
    with assms show ?thesis
      by (auto simp: issue_field_def setitem_Inr filter_update_key issue_keys dest!: bindM_Inr_elim)
  next
    case 5
    with assms show ?thesis by (simp add: issue_field_def)
  qed
qed

lemma issue_fields_without:
  "issue_fields fuel b fs x w = (Inr y, w') \<Longrightarrow> without ISSUE_DATA_FIELDS y = without ISSUE_DATA_FIELDS x"
proof (induction fs arbitrary: x w)
  case Nil
  then show ?case by simp
next
  case (Cons f fs)
  from Cons.prems obtain v where v: "subscript x f = Inr v"
    and rest: "(if \<not> truthy v then (\<lambda>w'. issue_fields fuel b fs x w')
       else bindM (issue_field fuel b f x) (\<lambda>issue' w'. issue_fields fuel b fs issue' w')) w = (Inr y, w')"
    by (auto dest!: bindM_Inr_elim)
  show ?case
  proof (cases "truthy v")
    case False
    with rest Cons.IH show ?thesis by simp
  next
    case True
    with rest obtain x1 w1 where "issue_field fuel b f x w = (Inr x1, w1)"
      "issue_fields fuel b fs x1 w1 = (Inr y, w')"
      by (auto dest!: bindM_Inr_elim)
    then show ?thesis using Cons.IH issue_field_without by metis
  qed
qed

lemma pull_field_without:
  assumes "pull_field fuel b field x w = (Inr y, w')"
  shows "without PULL_DATA_FIELDS y = without PULL_DATA_FIELDS x"
proof -
  consider "field = ''user''" | "field = ''merged_by''" | "field = ''assignees''"
    | "field = ''testers''" | "field = ''number''"
    | "field \<noteq> ''user''" "field \<noteq> ''merged_by''" "field \<noteq> ''assignees''" "field \<noteq> ''testers''"
      "field \<noteq> ''number''"
    by blast
  then show ?thesis
  proof cases
    case 1
    with assms show ?thesis
      by (auto simp: pull_field_def setitem_Inr filter_update_key pull_keys dest!: bindM_Inr_elim)
  next
    case 2
    with assms show ?thesis
      by (auto simp: pull_field_def setitem_Inr filter_update_key pull_keys dest!: bindM_Inr_elim)
  next
    case 3
    with assms show ?thesis
      by (auto simp: pull_field_def setitem_Inr filter_update_key pull_keys dest!: bindM_Inr_elim)
  next
    case 4
    with assms show ?thesis
      by (auto simp: pull_field_def setitem_Inr filter_update_key pull_keys dest!: bindM_Inr_elim)
  next
    case 5
    with assms show ?thesis
      by (auto simp: pull_field_def setitem_Inr filter_update_key pull_keys dest!: bindM_Inr_elim
          split: if_splits)
  next
    case 6
    with assms show ?thesis by (simp add: pull_field_def)
  qed
qed

lemma pull_fields_without:
  "pull_fields fuel b fs x w = (Inr y, w') \<Longrightarrow> without PULL_DATA_FIELDS y = without PULL_DATA_FIELDS x"
proof (induction fs arbitrary: x w)
  case Nil
  then show ?case by simp
next
  case (Cons f fs)
  from Cons.prems obtain v where v: "subscript x f = Inr v"
    and rest: "(if \<not> truthy v then (\<lambda>w'. pull_fields fuel b fs x w')
       else bindM (pull_field fuel b f x) (\<lambda>pull' w'. pull_fields fuel b fs pull' w')) w = (Inr y, w')"
    by (auto dest!: bindM_Inr_elim)
  show ?case
  proof (cases "truthy v")
    case False
    with rest Cons.IH show ?thesis by simp
  next
    case True
    with rest obtain x1 w1 where "pull_field fuel b f x w = (Inr x1, w1)"
      "pull_fields fuel b fs x1 w1 = (Inr y, w')"
      by (auto dest!: bindM_Inr_elim)
    then show ?thesis using Cons.IH pull_field_without by metis
  qed
qed


lemma fetch_issue_ok:
  "step_ok (fetch_issue fuel b to_date)
     (\<lambda>x. \<exists>t. updated_on b x = Inr t \<and> t \<le> to_date)
     (\<lambda>x. \<exists>t. updated_on b x = Inr t \<and> t > to_date) ISSUE_DATA_FIELDS"
  unfolding step_ok_def
proof (intro allI)
  fix x w
  show "case fetch_issue fuel b to_date x w of
        (Inr (Some y), w') \<Rightarrow> (\<exists>t. updated_on b x = Inr t \<and> t \<le> to_date) \<and>
           without ISSUE_DATA_FIELDS y = without ISSUE_DATA_FIELDS x
      | (Inr None, w') \<Rightarrow> (\<exists>t. updated_on b x = Inr t \<and> t > to_date)
      | (Inl e, w') \<Rightarrow> True"
  proof (cases "updated_on b x")
    case (Inl e)
    then have "fst (fetch_issue fuel b to_date x w) = Inl e"
      by (auto simp: fetch_issue_def updated_on_def split: sum.splits)
    then show ?thesis by (auto split: prod.splits sum.splits)
  next
    case (Inr t)
    then obtain u where u: "subscript x ''updated_at'' = Inr u" "str_to_datetime b u = Inr t"
      by (auto simp: updated_on_def split: sum.splits)
    show ?thesis
    proof (cases "t > to_date")
      case True
      with u have "fetch_issue fuel b to_date x w = (Inr None, w)"
        by (simp add: fetch_issue_def ret_def)
      with True Inr show ?thesis by simp
    next
      case False
      with u have eq: "fetch_issue fuel b to_date x w =
          bindM (lift (init_extra_issue_fields x)) (\<lambda>issue0.
          bindM (issue_fields fuel b TARGET_ISSUE_FIELDS issue0) (\<lambda>issue'.
          ret (Some issue'))) w"
        by (simp add: fetch_issue_def)
      show ?thesis
      proof (cases "fetch_issue fuel b to_date x w")
        case (Pair r w')
        show ?thesis
        proof (cases r)
          case (Inl e)
          with Pair show ?thesis by simp
        next
          case r: (Inr o1)
          with Pair eq obtain x0 w1 y where "init_extra_issue_fields x = Inr x0"
            "issue_fields fuel b TARGET_ISSUE_FIELDS x0 w1 = (Inr y, w')" "o1 = Some y"
            by (auto dest!: bindM_Inr_elim)
          then have "without ISSUE_DATA_FIELDS y = without ISSUE_DATA_FIELDS x" "o1 = Some y"
            using init_extra_issue_fields_without issue_fields_without by metis+
          with Pair r False Inr show ?thesis by simp
        qed
      qed
    qed
  qed
qed

lemma fetch_pull_ok:
  "step_ok (fetch_pull fuel b from_date to_date)
     (\<lambda>x. \<exists>t. updated_on b x = Inr t \<and> from_date \<le> t \<and> t \<le> to_date)
     (\<lambda>x. \<exists>t. updated_on b x = Inr t \<and> (t < from_date \<or> t > to_date)) PULL_DATA_FIELDS"
  unfolding step_ok_def
proof (intro allI)
  fix x w
  show "case fetch_pull fuel b from_date to_date x w of
        (Inr (Some y), w') \<Rightarrow> (\<exists>t. updated_on b x = Inr t \<and> from_date \<le> t \<and> t \<le> to_date) \<and>
           without PULL_DATA_FIELDS y = without PULL_DATA_FIELDS x
      | (Inr None, w') \<Rightarrow> (\<exists>t. updated_on b x = Inr t \<and> (t < from_date \<or> t > to_date))
      | (Inl e, w') \<Rightarrow> True"
  proof (cases "updated_on b x")
    case (Inl e)
    then have "fst (fetch_pull fuel b from_date to_date x w) = Inl e"
      by (auto simp: fetch_pull_def updated_on_def split: sum.splits)
    then show ?thesis by (auto split: prod.splits sum.splits)
  next
    case (Inr t)
    then obtain u where u: "subscript x ''updated_at'' = Inr u" "str_to_datetime b u = Inr t"
      by (auto simp: updated_on_def split: sum.splits)
    show ?thesis
    proof (cases "t < from_date \<or> t > to_date")
      case True
      with u have "fetch_pull fuel b from_date to_date x w = (Inr None, w)"
        by (auto simp: fetch_pull_def ret_def)
      with True Inr show ?thesis by simp
    next
      case False
      with u have eq: "fetch_pull fuel b from_date to_date x w =
          bindM (lift (init_extra_pull_fields x)) (\<lambda>pull0.
          bindM (pull_fields fuel b TARGET_PULL_FIELDS pull0) (\<lambda>pull'.
          ret (Some pull'))) w"
        by (simp add: fetch_pull_def)
      show ?thesis
      proof (cases "fetch_pull fuel b from_date to_date x w")
        case (Pair r w')
        show ?thesis
        proof (cases r)
          case (Inl e)
          with Pair show ?thesis by simp
        next
          case r: (Inr o1)
          with Pair eq obtain x0 w1 y where "init_extra_pull_fields x = Inr x0"
            "pull_fields fuel b TARGET_PULL_FIELDS x0 w1 = (Inr y, w')" "o1 = Some y"
            by (auto dest!: bindM_Inr_elim)
          then have "without PULL_DATA_FIELDS y = without PULL_DATA_FIELDS x" "o1 = Some y"
            using init_extra_pull_fields_without pull_fields_without by metis+
          with Pair r False Inr show ?thesis by auto
        qed
      qed
    qed
  qed
qed

text \<open>
  Claim C1. For every server, the issues emitted by the issue driver are, up to the
  enrichment fields, a prefix of the upstream list of issues; every emitted issue has an
  update time that is at most \<open>to_date\<close>; and when the run ends without an exception
  before the end of the upstream list, the first issue left out has an update time after
  \<open>to_date\<close>. So the driver stops the whole sequence at the first record updated after
  \<open>to_date\<close>: it neither skips that record nor goes on after it. This holds whether or
  not the upstream list is sorted.
\<close>

theorem fetch_issues_stops_after_to_date:
  "case fetch_issues fuel b from_date to_date w of
     ((emitted, exc), w') \<Rightarrow>
       (let ups = upstream fuel b (client_issues b (Some from_date)) w in
        length emitted \<le> length ups \<and>
        map (without ISSUE_DATA_FIELDS) emitted =
          map (without ISSUE_DATA_FIELDS) (take (length emitted) ups) \<and>
        (\<forall>issue \<in> set emitted. \<exists>t. updated_on b issue = Inr t \<and> t \<le> to_date) \<and>
        (exc = None \<and> length emitted < length ups \<longrightarrow>
           (\<exists>t. updated_on b (ups ! length emitted) = Inr t \<and> t > to_date)))"
proof -
  obtain emitted exc w' where r: "fetch_issues fuel b from_date to_date w = ((emitted, exc), w')"
    by (metis prod.exhaust)
  let ?ups = "upstream fuel b (client_issues b (Some from_date)) w"
  let ?keep = "\<lambda>x. \<exists>t. updated_on b x = Inr t \<and> t \<le> to_date"
  have win: "window ?keep (\<lambda>x. \<exists>t. updated_on b x = Inr t \<and> t > to_date) ISSUE_DATA_FIELDS
      emitted exc ?ups"
    using drive_window [where step = "fetch_issue fuel b to_date" and fuel = fuel and b = b
        and g = "client_issues b (Some from_date)" and w = w and ?w0.0 = w, OF fetch_issue_ok] r
    by (simp add: fetch_issues_def)
  have k: "''updated_at'' \<notin> set ISSUE_DATA_FIELDS" by (simp add: ISSUE_DATA_FIELDS_def)
  have "\<exists>t. updated_on b issue = Inr t \<and> t \<le> to_date" if "issue \<in> set emitted" for issue
  proof -
    from that obtain i where i: "i < length emitted" "emitted ! i = issue"
      by (auto simp: in_set_conv_nth)
    from win have len: "length emitted \<le> length ?ups"
      and m: "map (without ISSUE_DATA_FIELDS) emitted = map (without ISSUE_DATA_FIELDS) (take (length emitted) ?ups)"
      and ka: "list_all ?keep (take (length emitted) ?ups)"
      by (auto simp: window_def)
    from m i len have "without ISSUE_DATA_FIELDS issue = without ISSUE_DATA_FIELDS (?ups ! i)"
      by (metis length_map nth_map nth_take)
    then have "updated_on b issue = updated_on b (?ups ! i)"
      by (rule updated_on_without [OF k])
    moreover from ka i len have "?keep (?ups ! i)"
      by (simp add: list_all_length)
    ultimately show ?thesis by simp
  qed
  with win show ?thesis
    by (simp add: r window_def Let_def)
qed

text \<open>
  Claim C2. For every server, the pull requests emitted by the pull-request driver are,
  up to the enrichment fields, a prefix of the upstream list of pull requests; every
  emitted pull request has an update time from \<open>from_date\<close> to \<open>to_date\<close>, both
  included; and when the run ends without an exception before the end of the upstream
  list, the first pull request left out has an update time before \<open>from_date\<close> or after
  \<open>to_date\<close>. So the driver stops the whole sequence at the first record outside either
  bound.
\<close>

theorem fetch_pull_requests_stops_outside_window:
  "case fetch_pull_requests fuel b from_date to_date w of
     ((emitted, exc), w') \<Rightarrow>
       (let ups = upstream fuel b (client_pulls (Some from_date)) w in
        length emitted \<le> length ups \<and>
        map (without PULL_DATA_FIELDS) emitted =
          map (without PULL_DATA_FIELDS) (take (length emitted) ups) \<and>
        (\<forall>pull \<in> set emitted. \<exists>t. updated_on b pull = Inr t \<and> from_date \<le> t \<and> t \<le> to_date) \<and>
        (exc = None \<and> length emitted < length ups \<longrightarrow>
           (\<exists>t. updated_on b (ups ! length emitted) = Inr t \<and> (t < from_date \<or> t > to_date))))"
proof -
  obtain emitted exc w' where r: "fetch_pull_requests fuel b from_date to_date w = ((emitted, exc), w')"
    by (metis prod.exhaust)
  let ?ups = "upstream fuel b (client_pulls (Some from_date)) w"
  let ?keep = "\<lambda>x. \<exists>t. updated_on b x = Inr t \<and> from_date \<le> t \<and> t \<le> to_date"
  have win: "window ?keep (\<lambda>x. \<exists>t. updated_on b x = Inr t \<and> (t < from_date \<or> t > to_date))
      PULL_DATA_FIELDS emitted exc ?ups"
    using drive_window [where step = "fetch_pull fuel b from_date to_date" and fuel = fuel and b = b
        and g = "client_pulls (Some from_date)" and w = w and ?w0.0 = w, OF fetch_pull_ok] r
    by (simp add: fetch_pull_requests_def)
  have k: "''updated_at'' \<notin> set PULL_DATA_FIELDS" by (simp add: PULL_DATA_FIELDS_def)
  have "\<exists>t. updated_on b pull = Inr t \<and> from_date \<le> t \<and> t \<le> to_date" if "pull \<in> set emitted" for pull
  proof -
    from that obtain i where i: "i < length emitted" "emitted ! i = pull"
      by (auto simp: in_set_conv_nth)
    from win have len: "length emitted \<le> length ?ups"
      and m: "map (without PULL_DATA_FIELDS) emitted = map (without PULL_DATA_FIELDS) (take (length emitted) ?ups)"
      and ka: "list_all ?keep (take (length emitted) ?ups)"
      by (auto simp: window_def)
    from m i len have "without PULL_DATA_FIELDS pull = without PULL_DATA_FIELDS (?ups ! i)"
      by (metis length_map nth_map nth_take)
    then have "updated_on b pull = updated_on b (?ups ! i)"
      by (rule updated_on_without [OF k])
    moreover from ka i len have "?keep (?ups ! i)"
      by (simp add: list_all_length)
    ultimately show ?thesis by simp
  qed
  with win show ?thesis
    by (simp add: r window_def Let_def)
qed


subsection \<open>The drivers on the fixture\<close>

text \<open>With \<open>to_date\<close> at day 20 the issue driver emits issues 1 and 2 and stops at issue 3
  (day 30); issue 4 (day 15), which follows, is not emitted.\<close>

lemmas issue_driver_simps = fetch_issues_def client_issues_def since_def fetch_issue_def
  init_extra_issue_fields_def TARGET_ISSUE_FIELDS_def issue_field_def get_issue_assignee_def
  get_issue_collaborators_def get_issue_comments_def client_issue_comments_def issue_comment_def

lemmas pull_driver_simps = fetch_pull_requests_def client_pulls_def since_def
  fetch_pull_def init_extra_pull_fields_def TARGET_PULL_FIELDS_def pull_field_def get_users_def
  get_pull_review_comments_def client_pull_review_comments_def
  get_pull_commits_def client_pull_commits_def pull_commit_def
  get_pull_merged_by_def client_pull_action_logs_def action_logs_body_def

lemma fetch_issues_fixture:
  "fst (fetch_issues 3 fixture 0 20 world0) =
    ([JObj [(''number'', JNum 1), (''updated_at'', JStr ''day 10''),
            (''user'', JObj [(''login'', JStr ''alice'')]), (''assignee'', JNull),
            (''collaborators'', JArr []), (''comments'', JNum 0),
            (''user_data'', alice_record), (''assignee_data'', JObj []),
            (''assignees_data'', JArr []), (''comments_data'', JArr [])],
      JObj [(''number'', JNum 2), (''updated_at'', JStr ''day 20''),
            (''user'', JNull), (''assignee'', JNull),
            (''collaborators'', JArr []), (''comments'', JNum 0),
            (''user_data'', JObj []), (''assignee_data'', JObj []),
            (''assignees_data'', JArr []), (''comments_data'', JArr [])]], None)"
  by (simp add: issue_driver_simps fixture_simps driver_simps alice_record_def)

lemma upstream_issues_fixture:
  "upstream 3 fixture (client_issues fixture (Some 0)) world0 =
     [issue_of 1 ''day 10'' (JObj [(''login'', JStr ''alice'')]), issue_of 2 ''day 20'' JNull,
      issue_of 3 ''day 30'' JNull, issue_of 4 ''day 15'' JNull]"
  by (simp add: upstream_def client_issues_def since_def fixture_simps driver_simps each_all)

theorem fetch_issues_stops_after_to_date_witness:
  "map (\<lambda>issue. (subscript issue ''number'', updated_on fixture issue))
     (fst (fst (fetch_issues 3 fixture 0 20 world0))) =
     [(Inr (JNum 1), Inr 10), (Inr (JNum 2), Inr 20)] \<and>
   snd (fst (fetch_issues 3 fixture 0 20 world0)) = None \<and>
   map (\<lambda>issue. (subscript issue ''number'', updated_on fixture issue))
     (upstream 3 fixture (client_issues fixture (Some 0)) world0) =
     [(Inr (JNum 1), Inr 10), (Inr (JNum 2), Inr 20), (Inr (JNum 3), Inr 30), (Inr (JNum 4), Inr 15)]"
  using fetch_issues_stops_after_to_date [where fuel = 3 and b = fixture and from_date = 0
      and to_date = 20 and w = world0]
  by (simp add: fetch_issues_fixture upstream_issues_fixture split: prod.splits)
    (simp add: updated_on_def fixture_simps)

text \<open>The pull-request driver emits pull request 42 (day 15) and stops at 43 (day 30) for
  the window from day 0 to day 20; for the window from day 20 to day 40 it stops at once,
  at pull request 42.\<close>

lemma upstream_pulls_fixture:
  "upstream 3 fixture (client_pulls (Some from_date)) world0 =
     [JObj (pull_of 42 ''day 15''), JObj (pull_of 43 ''day 30'')]"
  by (simp add: upstream_def client_pulls_def since_def fixture_simps driver_simps each_all)

lemma fetch_pulls_late_fixture:
  "fst (fetch_pull_requests 3 fixture 20 40 world0) = ([], None)"
  by (simp add: pull_driver_simps fixture_simps driver_simps)

theorem fetch_pull_requests_stops_outside_window_witness:
  "map (\<lambda>pull. (subscript pull ''number'', updated_on fixture pull))
     (fst (fst (fetch_pull_requests 3 fixture 0 20 world0))) = [(Inr (JNum 42), Inr 15)] \<and>
   snd (fst (fetch_pull_requests 3 fixture 0 20 world0)) = None \<and>
   fst (fetch_pull_requests 3 fixture 20 40 world0) = ([], None) \<and>
   map (\<lambda>pull. (subscript pull ''number'', updated_on fixture pull))
     (upstream 3 fixture (client_pulls (Some 0)) world0) =
     [(Inr (JNum 42), Inr 15), (Inr (JNum 43), Inr 30)]"
  using fetch_pull_requests_stops_outside_window [where fuel = 3 and b = fixture and from_date = 0
      and to_date = 20 and w = world0]
    fetch_pull_requests_stops_outside_window [where fuel = 3 and b = fixture and from_date = 20
      and to_date = 40 and w = world0]
  by (simp add: fetch_pull_42 fetch_pulls_late_fixture upstream_pulls_fixture split: prod.splits)
    (simp add: updated_on_def fixture_simps)

text \<open>The issue driver has no test of the lower bound: issue 1 (day 10) is emitted for a
  \<open>from_date\<close> of day 12, when the server sends it.\<close>

lemma fetch_issues_ignores_from_date:
  "map (\<lambda>issue. (subscript issue ''number'', updated_on fixture issue))
     (fst (fst (fetch_issues 3 fixture 12 20 world0))) =
     [(Inr (JNum 1), Inr 10), (Inr (JNum 2), Inr 20)]"
  by (simp add: issue_driver_simps fixture_simps driver_simps updated_on_def)

section \<open>The dispatch on the fixture\<close>

theorem fetch_unknown_category_witness:
  "''wiki'' \<notin> set CATEGORIES \<and>
   fetch 3 fixture ''wiki'' None None False world0 =
     ((None, [], Some (ConfigurationError ''wiki'')), world0) \<and>
   CATEGORY_REPO \<in> set CATEGORIES \<and>
   fst (fst (fetch 3 fixture CATEGORY_REPO (Some 0) (Some 20) False world0)) = Some RepoDriver"
  using fetch_unknown_category [where category = "''wiki''" and fuel = 3 and b = fixture
      and from_date = None and to_date = None and filter_classified = False and w = world0]
    fetch_unknown_category [where category = CATEGORY_REPO and fuel = 3 and b = fixture
      and f = 0 and t = 20 and filter_classified = False and w = world0]
  by (simp add: CATEGORIES_def CATEGORY_ISSUE_def CATEGORY_PULL_REQUEST_def CATEGORY_REPO_def
      fetch_items_def split: prod.splits)

end
